theory Spec2Isabelle
  imports Complex_Main
begin

section \<open>Floating-point values of Python and numpy\<close>

text \<open>
  The programme computes on IEEE doubles. A double is modelled as a finite real number,
  one of the two infinities, or NaN; the operations follow the IEEE rules for the special
  values (\<open>0 * inf = nan\<close>, \<open>inf - inf = nan\<close>, \<open>x / 0 = \<plusminus>inf\<close> or \<open>nan\<close>, every
  comparison with NaN false). Rounding, overflow of finite results and the sign of zero
  are not modelled: finite results are exact, and a zero divisor counts as \<open>+0\<close>.
\<close>

datatype npfloat = Fin real | PInf | NInf | NaN

fun isnan :: "npfloat \<Rightarrow> bool" where
  "isnan NaN = True"
| "isnan _ = False"

fun isfinite :: "npfloat \<Rightarrow> bool" where
  "isfinite (Fin _) = True"
| "isfinite _ = False"

fun fneg :: "npfloat \<Rightarrow> npfloat" where
  "fneg (Fin a) = Fin (- a)"
| "fneg PInf = NInf"
| "fneg NInf = PInf"
| "fneg NaN = NaN"

fun fadd :: "npfloat \<Rightarrow> npfloat \<Rightarrow> npfloat" where
  "fadd (Fin a) (Fin b) = Fin (a + b)"
| "fadd NaN _ = NaN"
| "fadd _ NaN = NaN"
| "fadd PInf NInf = NaN"
| "fadd NInf PInf = NaN"
| "fadd PInf _ = PInf"
| "fadd _ PInf = PInf"
| "fadd NInf _ = NInf"
| "fadd _ NInf = NInf"

definition fsub :: "npfloat \<Rightarrow> npfloat \<Rightarrow> npfloat" where
  "fsub a b = fadd a (fneg b)"

fun fmul :: "npfloat \<Rightarrow> npfloat \<Rightarrow> npfloat" where
  "fmul (Fin a) (Fin b) = Fin (a * b)"
| "fmul NaN _ = NaN"
| "fmul _ NaN = NaN"
| "fmul PInf (Fin b) = (if b = 0 then NaN else if 0 < b then PInf else NInf)"
| "fmul NInf (Fin b) = (if b = 0 then NaN else if 0 < b then NInf else PInf)"
| "fmul (Fin a) PInf = (if a = 0 then NaN else if 0 < a then PInf else NInf)"
| "fmul (Fin a) NInf = (if a = 0 then NaN else if 0 < a then NInf else PInf)"
| "fmul PInf PInf = PInf"
| "fmul PInf NInf = NInf"
| "fmul NInf PInf = NInf"
| "fmul NInf NInf = PInf"

text \<open>numpy's division: never raises, a zero divisor gives an infinity or NaN.\<close>

fun fdiv :: "npfloat \<Rightarrow> npfloat \<Rightarrow> npfloat" where
  "fdiv (Fin a) (Fin b) =
     (if b \<noteq> 0 then Fin (a / b)
      else if a = 0 then NaN else if 0 < a then PInf else NInf)"
| "fdiv NaN _ = NaN"
| "fdiv _ NaN = NaN"
| "fdiv (Fin a) PInf = Fin 0"
| "fdiv (Fin a) NInf = Fin 0"
| "fdiv PInf (Fin b) = (if 0 \<le> b then PInf else NInf)"
| "fdiv NInf (Fin b) = (if 0 \<le> b then NInf else PInf)"
| "fdiv PInf PInf = NaN"
| "fdiv PInf NInf = NaN"
| "fdiv NInf PInf = NaN"
| "fdiv NInf NInf = NaN"

fun fabs :: "npfloat \<Rightarrow> npfloat" where
  "fabs (Fin a) = Fin \<bar>a\<bar>"
| "fabs PInf = PInf"
| "fabs NInf = PInf"
| "fabs NaN = NaN"

text \<open>\<open>np.sqrt\<close>: NaN on a negative argument.\<close>

fun fsqrt :: "npfloat \<Rightarrow> npfloat" where
  "fsqrt (Fin a) = (if 0 \<le> a then Fin (sqrt a) else NaN)"
| "fsqrt PInf = PInf"
| "fsqrt NInf = NaN"
| "fsqrt NaN = NaN"

fun flt :: "npfloat \<Rightarrow> npfloat \<Rightarrow> bool" where
  "flt (Fin a) (Fin b) = (a < b)"
| "flt NaN _ = False"
| "flt _ NaN = False"
| "flt NInf NInf = False"
| "flt NInf _ = True"
| "flt PInf _ = False"
| "flt (Fin a) PInf = True"
| "flt (Fin a) NInf = False"

definition fle :: "npfloat \<Rightarrow> npfloat \<Rightarrow> bool" where
  "fle a b = (flt a b \<or> (a = b \<and> \<not> isnan a))"

definition fgt :: "npfloat \<Rightarrow> npfloat \<Rightarrow> bool" where
  "fgt a b = flt b a"

definition fge :: "npfloat \<Rightarrow> npfloat \<Rightarrow> bool" where
  "fge a b = fle b a"

text \<open>\<open>np.maximum\<close> and \<open>np.minimum\<close> propagate NaN; \<open>np.clip\<close> is their composition.\<close>

definition fmaximum :: "npfloat \<Rightarrow> npfloat \<Rightarrow> npfloat" where
  "fmaximum a b = (if isnan a \<or> isnan b then NaN else if flt a b then b else a)"

definition fminimum :: "npfloat \<Rightarrow> npfloat \<Rightarrow> npfloat" where
  "fminimum a b = (if isnan a \<or> isnan b then NaN else if flt b a then b else a)"

definition clip :: "npfloat \<Rightarrow> npfloat \<Rightarrow> npfloat \<Rightarrow> npfloat" where
  "clip a lo hi = fminimum (fmaximum a lo) hi"

text \<open>Truth value of a number in a Python conditional: zero is false, NaN is true.\<close>

definition truthy :: "npfloat \<Rightarrow> bool" where
  "truthy v = (v \<noteq> Fin 0)"

datatype py_error = IndexError | ZeroDivisionError | ValueError | LinAlgError

section \<open>Recursive hedge-ratio estimator (kalman.py)\<close>

record kalman_cfg =
  delta :: real
  Ve :: real
  initial_mean :: real
  initial_cov :: real

text \<open>
  \<open>Vw = self.delta / (1 - self.delta)\<close> divides two Python floats: a zero divisor raises
  \<open>ZeroDivisionError\<close>.
\<close>

definition Vw_of :: "kalman_cfg \<Rightarrow> py_error + npfloat" where
  "Vw_of k = (if 1 - delta k = 0 then Inl ZeroDivisionError
              else Inr (Fin (delta k / (1 - delta k))))"

text \<open>
  \<open>online_update(y_new, x_new, beta_prev, P_prev)\<close>, on numpy doubles as read from a
  series: the division by \<open>S\<close> is numpy's.
\<close>

definition online_update ::
  "kalman_cfg \<Rightarrow> npfloat \<Rightarrow> npfloat \<Rightarrow> npfloat \<Rightarrow> npfloat
     \<Rightarrow> py_error + (npfloat \<times> npfloat \<times> npfloat)" where
  "online_update k y_new x_new beta_prev P_prev =
     (case Vw_of k of
        Inl err \<Rightarrow> Inl err
      | Inr Vw \<Rightarrow>
          (let P_pred = fadd P_prev Vw;
               S = fadd (fmul (fmul x_new P_pred) x_new) (Fin (Ve k));
               K = fdiv (fmul P_pred x_new) S;
               e = fsub y_new (fmul beta_prev x_new)
           in Inr (fadd beta_prev (fmul K e), fmul (fsub (Fin 1) (fmul K x_new)) P_pred, e)))"

text \<open>
  The arrays \<open>beta\<close>, \<open>P\<close> and \<open>forecast_error\<close> of \<open>filter\<close>, and the body of its loop at
  index \<open>t\<close>. (The local array \<open>spread\<close> of the loop is overwritten by the column computed
  after the loop and is left out.)
\<close>

type_synonym karrays = "npfloat list \<times> npfloat list \<times> npfloat list"

definition filter_body ::
  "kalman_cfg \<Rightarrow> npfloat \<Rightarrow> npfloat list \<Rightarrow> npfloat list \<Rightarrow> karrays \<Rightarrow> nat \<Rightarrow> karrays" where
  "filter_body k Vw y x arrs t =
     (case arrs of (beta, P, forecast_error) \<Rightarrow>
        (let beta_pred = beta ! (t - 1);
             P_pred = fadd (P ! (t - 1)) Vw;
             x_t = x ! t;
             y_t = y ! t;
             e = fsub y_t (fmul beta_pred x_t);
             S = fadd (fmul (fmul x_t P_pred) x_t) (Fin (Ve k));
             K = fdiv (fmul P_pred x_t) S
         in (beta[t := fadd beta_pred (fmul K e)],
             P[t := fmul (fsub (Fin 1) (fmul K x_t)) P_pred],
             forecast_error[t := e])))"

record kalman_frame =
  hedge_ratio :: "npfloat list"
  hedge_ratio_std :: "npfloat list"
  spread :: "npfloat list"
  forecast_error :: "npfloat list"

text \<open>
  \<open>filter(y, x)\<close>. The exceptions of the source are results: \<open>beta[0] = ...\<close> on an empty
  array, the division for \<open>Vw\<close>, \<open>x.iloc[t]\<close> past the end of a shorter \<open>x\<close>, and the
  column assignment when the lengths differ.
\<close>

definition filter_kalman ::
  "kalman_cfg \<Rightarrow> npfloat list \<Rightarrow> npfloat list \<Rightarrow> py_error + kalman_frame" where
  "filter_kalman k y x =
     (let n = length y in
      if n = 0 then Inl IndexError
      else (case Vw_of k of
              Inl err \<Rightarrow> Inl err
            | Inr Vw \<Rightarrow>
                if length x < n \<and> 1 < n then Inl IndexError
                else if length x \<noteq> n then Inl ValueError
                else
                  (case foldl (filter_body k Vw y x)
                          ((replicate n (Fin 0))[0 := Fin (initial_mean k)],
                           (replicate n (Fin 0))[0 := Fin (initial_cov k)],
                           replicate n (Fin 0))
                          [1..<n] of
                     (beta, P, fe) \<Rightarrow>
                       Inr \<lparr> hedge_ratio = beta,
                             hedge_ratio_std = map fsqrt P,
                             spread = map2 (\<lambda>yv (b, xv). fsub yv (fmul b xv)) y (zip beta x),
                             forecast_error = fe \<rparr>)))"

text \<open>
  Replaying a path: \<open>online_update\<close> is called once per observation, each call on the
  estimate the previous call returned.
\<close>

fun replay_online ::
  "kalman_cfg \<Rightarrow> npfloat \<Rightarrow> npfloat \<Rightarrow> (npfloat \<times> npfloat) list
     \<Rightarrow> py_error + (npfloat \<times> npfloat \<times> npfloat) list" where
  "replay_online k b P [] = Inr []"
| "replay_online k b P ((y_new, x_new) # obs) =
     (case online_update k y_new x_new b P of
        Inl err \<Rightarrow> Inl err
      | Inr (b', P', e) \<Rightarrow>
          (case replay_online k b' P' obs of
             Inl err \<Rightarrow> Inl err
           | Inr rows \<Rightarrow> Inr ((b', P', e) # rows)))"

text \<open>
  Proof devices, not part of the source: the quantities \<open>S\<close> and \<open>K\<close> of one update, the
  update as a function on the carried triple, and the sequence of triples along a path.
\<close>

definition S_innov :: "kalman_cfg \<Rightarrow> npfloat \<Rightarrow> npfloat \<Rightarrow> npfloat" where
  "S_innov k x_t P_pred = fadd (fmul (fmul x_t P_pred) x_t) (Fin (Ve k))"

definition K_gain :: "kalman_cfg \<Rightarrow> npfloat \<Rightarrow> npfloat \<Rightarrow> npfloat" where
  "K_gain k x_t P_pred = fdiv (fmul P_pred x_t) (S_innov k x_t P_pred)"

definition kalman_step ::
  "kalman_cfg \<Rightarrow> npfloat \<Rightarrow> npfloat \<times> npfloat \<times> npfloat \<Rightarrow> npfloat \<times> npfloat
     \<Rightarrow> npfloat \<times> npfloat \<times> npfloat" where
  "kalman_step k Vw s ob =
     (let b = fst s; P = fst (snd s); y_t = fst ob; x_t = snd ob;
          P_pred = fadd P Vw;
          e = fsub y_t (fmul b x_t);
          S = fadd (fmul (fmul x_t P_pred) x_t) (Fin (Ve k));
          K = fdiv (fmul P_pred x_t) S
      in (fadd b (fmul K e), fmul (fsub (Fin 1) (fmul K x_t)) P_pred, e))"

fun kalman_path ::
  "kalman_cfg \<Rightarrow> npfloat \<Rightarrow> npfloat \<times> npfloat \<times> npfloat \<Rightarrow> (npfloat \<times> npfloat) list
     \<Rightarrow> (npfloat \<times> npfloat \<times> npfloat) list" where
  "kalman_path k Vw s [] = [s]"
| "kalman_path k Vw s (ob # obs) = s # kalman_path k Vw (kalman_step k Vw s ob) obs"

section \<open>Signal generator (zscore.py)\<close>

record zscore_cfg =
  entry_z :: real
  exit_z :: real
  stop_z :: real
  lookback :: nat
  use_ewm :: bool
  ewm_halflife :: real

text \<open>
  The moving estimators are pandas', not this repository's: \<open>spread.ewm(halflife=h).mean()\<close>,
  \<open>.std()\<close>, \<open>spread.rolling(w).mean()\<close>, \<open>.std()\<close> are parameters of the model.
\<close>

record stats_lib =
  ewm_mean :: "real \<Rightarrow> npfloat list \<Rightarrow> npfloat list"
  ewm_std :: "real \<Rightarrow> npfloat list \<Rightarrow> npfloat list"
  rolling_mean :: "nat \<Rightarrow> npfloat list \<Rightarrow> npfloat list"
  rolling_std :: "nat \<Rightarrow> npfloat list \<Rightarrow> npfloat list"

text \<open>
  (The arguments \<open>hedge_ratio\<close> and the local \<open>spread\<close> of the source are written \<open>hedge\<close>
  and \<open>spr\<close>: the names are taken by the columns of the estimator's output.)
  Series arithmetic aligns on the index; all series of one call share the index of the
  prices, so alignment is positional. A label a series lacks reads as NaN.
\<close>

definition series_get :: "npfloat list \<Rightarrow> nat \<Rightarrow> npfloat" where
  "series_get xs i = (if i < length xs then xs ! i else NaN)"

definition compute_spread ::
  "npfloat list \<Rightarrow> npfloat list \<Rightarrow> npfloat \<Rightarrow> npfloat \<Rightarrow> npfloat list" where
  "compute_spread y x hedge intercept =
     map2 (\<lambda>yv xv. fsub (fsub yv (fmul hedge xv)) intercept) y x"

definition compute_zscore :: "zscore_cfg \<Rightarrow> stats_lib \<Rightarrow> npfloat list \<Rightarrow> npfloat list" where
  "compute_zscore c lib spr =
     (let mean = (if use_ewm c then ewm_mean lib (ewm_halflife c) spr
                  else rolling_mean lib (lookback c) spr);
          std = (if use_ewm c then ewm_std lib (ewm_halflife c) spr
                 else rolling_std lib (lookback c) spr)
      in map (\<lambda>i. fdiv (fsub (spr ! i) (series_get mean i)) (series_get std i))
           [0..<length spr])"

text \<open>The branches of the loop body of \<open>generate_signals\<close> below the NaN test.\<close>

definition position_step :: "zscore_cfg \<Rightarrow> int \<Rightarrow> npfloat \<Rightarrow> int" where
  "position_step c position z =
     (if position = 0 then
        (if flt z (Fin (- entry_z c)) then 1
         else if fgt z (Fin (entry_z c)) then - 1
         else position)
      else if position = 1 then
        (if fgt z (Fin (- exit_z c)) \<or> fgt z (Fin (stop_z c)) then 0 else position)
      else if position = - 1 then
        (if flt z (Fin (exit_z c)) \<or> flt z (Fin (- stop_z c)) then 0 else position)
      else position)"

text \<open>
  One pass of the loop at index \<open>i\<close>: the variable \<open>position\<close> and the column
  \<open>signals['position']\<close>. On a NaN z-score the \<open>continue\<close> skips the write to the column.
\<close>

definition signal_body ::
  "zscore_cfg \<Rightarrow> npfloat list \<Rightarrow> int \<times> int list \<Rightarrow> nat \<Rightarrow> int \<times> int list" where
  "signal_body c zscore st i =
     (case st of (position, col) \<Rightarrow>
        (let z = zscore ! i in
         if isnan z then (position, col)
         else (let position' = position_step c position z
               in (position', col[i := position']))))"

definition position_loop :: "zscore_cfg \<Rightarrow> npfloat list \<Rightarrow> int \<times> int list" where
  "position_loop c zscore =
     foldl (signal_body c zscore) (0, replicate (length zscore) 0) [1..<length zscore]"

definition confidence_of :: "zscore_cfg \<Rightarrow> npfloat \<Rightarrow> npfloat" where
  "confidence_of c z =
     clip (fdiv (fsub (fabs z) (Fin (exit_z c))) (Fin (entry_z c - exit_z c))) (Fin 0) (Fin 1)"

record signals_frame =
  sig_spread :: "npfloat list"
  zscore :: "npfloat list"
  position :: "int list"
  confidence :: "npfloat list"

definition generate_signals ::
  "zscore_cfg \<Rightarrow> stats_lib \<Rightarrow> npfloat list \<Rightarrow> npfloat list \<Rightarrow> npfloat \<Rightarrow> npfloat
     \<Rightarrow> signals_frame" where
  "generate_signals c lib y x hedge intercept =
     (let spr = compute_spread y x hedge intercept;
          zs = compute_zscore c lib spr
      in \<lparr> sig_spread = spr,
           zscore = zs,
           position = snd (position_loop c zs),
           confidence = map (confidence_of c) zs \<rparr>)"

text \<open>
  pandas on a series: \<open>shift(1)\<close>, \<open>pct_change()\<close>, \<open>diff()\<close>, and \<open>cumprod()\<close>, which skips
  NaN entries: they stay NaN in the result and do not enter the running product.
  \<open>pct_change()\<close> is \<open>data / data.shift(1) - 1\<close>, where \<open>data\<close> is the series itself under
  pandas 3 (\<open>fill_method = None\<close>) and the forward-filled series under earlier versions
  (\<open>fill_method = 'pad'\<close>: a missing price is replaced by the last price before it). Which
  default is in force is not fixed by the repository; it is the argument \<open>fm\<close> of the model.
\<close>

definition shift1 :: "npfloat list \<Rightarrow> npfloat list" where
  "shift1 xs = (if xs = [] then [] else NaN # butlast xs)"

datatype fill_method = Pad | NoFill

fun ffill_from :: "npfloat \<Rightarrow> npfloat list \<Rightarrow> npfloat list" where
  "ffill_from prev [] = []"
| "ffill_from prev (v # vs) =
     (if isnan v then prev # ffill_from prev vs else v # ffill_from v vs)"

definition filled :: "fill_method \<Rightarrow> npfloat list \<Rightarrow> npfloat list" where
  "filled fm xs = (case fm of Pad \<Rightarrow> ffill_from NaN xs | NoFill \<Rightarrow> xs)"

definition pct_change :: "fill_method \<Rightarrow> npfloat list \<Rightarrow> npfloat list" where
  "pct_change fm xs =
     (let data = filled fm xs
      in map (\<lambda>v. fsub v (Fin 1)) (map2 fdiv data (shift1 data)))"


fun cumprod_from :: "npfloat \<Rightarrow> npfloat list \<Rightarrow> npfloat list" where
  "cumprod_from acc [] = []"
| "cumprod_from acc (v # vs) =
     (if isnan v then NaN # cumprod_from acc vs
      else fmul acc v # cumprod_from (fmul acc v) vs)"

definition cumprod :: "npfloat list \<Rightarrow> npfloat list" where
  "cumprod xs = cumprod_from (Fin 1) xs"




text \<open>
  pandas' rolling estimators, for instantiating the parameters: window \<open>w\<close> with the default
  \<open>min_periods = w\<close> (NaN until the window is full and whenever it holds a NaN), sample
  standard deviation (\<open>ddof = 1\<close>).
\<close>

definition fsum :: "npfloat list \<Rightarrow> npfloat" where
  "fsum xs = foldl fadd (Fin 0) xs"

definition window_at :: "nat \<Rightarrow> nat \<Rightarrow> npfloat list \<Rightarrow> npfloat list" where
  "window_at w i xs = take w (drop (Suc i - w) xs)"

definition pd_rolling_mean :: "nat \<Rightarrow> npfloat list \<Rightarrow> npfloat list" where
  "pd_rolling_mean w xs =
     map (\<lambda>i. if w = 0 \<or> Suc i < w \<or> list_ex isnan (window_at w i xs) then NaN
              else fdiv (fsum (window_at w i xs)) (Fin (real w)))
       [0..<length xs]"

definition pd_rolling_std :: "nat \<Rightarrow> npfloat list \<Rightarrow> npfloat list" where
  "pd_rolling_std w xs =
     map (\<lambda>i. if w = 0 \<or> Suc i < w \<or> list_ex isnan (window_at w i xs) then NaN
              else (let m = fdiv (fsum (window_at w i xs)) (Fin (real w))
                    in fsqrt (fdiv (fsum (map (\<lambda>v. fmul (fsub v m) (fsub v m))
                                           (window_at w i xs)))
                                   (Fin (real w - 1)))))
       [0..<length xs]"

text \<open>
  The rolling estimators alone; the exponential ones are not modelled, and this instance
  is used only with \<open>use_ewm = False\<close>, where they are never called.
\<close>

definition rolling_lib :: stats_lib where
  "rolling_lib = \<lparr> ewm_mean = (\<lambda>h xs. map (\<lambda>v. NaN) xs),
                   ewm_std = (\<lambda>h xs. map (\<lambda>v. NaN) xs),
                   rolling_mean = pd_rolling_mean,
                   rolling_std = pd_rolling_std \<rparr>"



text \<open>
  Proof devices, not part of the source: the value of the loop variable \<open>position\<close> after
  each pass, and the entry the pass leaves in the column (0, the initial fill, where the
  pass is skipped).
\<close>

definition carry_step :: "zscore_cfg \<Rightarrow> int \<Rightarrow> npfloat \<Rightarrow> int" where
  "carry_step c p z = (if isnan z then p else position_step c p z)"

fun carried :: "zscore_cfg \<Rightarrow> int \<Rightarrow> npfloat list \<Rightarrow> int list" where
  "carried c p [] = [p]"
| "carried c p (z # zs) = p # carried c (carry_step c p z) zs"

fun recorded :: "zscore_cfg \<Rightarrow> int \<Rightarrow> npfloat list \<Rightarrow> int list" where
  "recorded c p [] = []"
| "recorded c p (z # zs) =
     (if isnan z then 0 else position_step c p z) # recorded c (carry_step c p z) zs"

text \<open>A z-score strictly between \<open>exit_z\<close> and \<open>entry_z\<close>.\<close>

definition in_band :: "zscore_cfg \<Rightarrow> npfloat \<Rightarrow> bool" where
  "in_band c z = (flt (Fin (exit_z c)) z \<and> flt z (Fin (entry_z c)))"

text \<open>Example inputs: a rolling window of three and thresholds within reach of it.\<close>

definition example_cfg :: zscore_cfg where
  "example_cfg = \<lparr> entry_z = 9/10, exit_z = 1/2, stop_z = 11/10, lookback = 3,
                    use_ewm = False, ewm_halflife = 30 \<rparr>"

section \<open>Performance metrics (engine.py)\<close>

text \<open>
  \<open>PairsBacktester._compute_metrics\<close>, on a series of returns. The mapping it returns is an
  association list from the metric's name to its value (the integer entries \<open>0\<close> and
  \<open>len(r)\<close> are written as floats). numpy's power and pandas' \<open>skew\<close> and \<open>kurtosis\<close> are
  library code, total functions on doubles, and parameters of the model.
\<close>

record metrics_lib =
  np_power :: "npfloat \<Rightarrow> npfloat \<Rightarrow> npfloat"
  pd_skew :: "npfloat list \<Rightarrow> npfloat"
  pd_kurtosis :: "npfloat list \<Rightarrow> npfloat"

definition dropna :: "npfloat list \<Rightarrow> npfloat list" where
  "dropna xs = filter (\<lambda>v. \<not> isnan v) xs"

text \<open>Python's \<open>/\<close> on Python numbers raises on a zero divisor.\<close>

definition py_truediv :: "real \<Rightarrow> real \<Rightarrow> py_error + real" where
  "py_truediv a b = (if b = 0 then Inl ZeroDivisionError else Inr (a / b))"

definition fprod :: "npfloat list \<Rightarrow> npfloat" where
  "fprod xs = foldl fmul (Fin 1) xs"

definition pd_mean :: "npfloat list \<Rightarrow> npfloat" where
  "pd_mean xs = fdiv (fsum xs) (Fin (real (length xs)))"

text \<open>\<open>Series.std()\<close>: sample standard deviation (\<open>ddof = 1\<close>), NaN for a single value.\<close>

definition pd_std :: "npfloat list \<Rightarrow> npfloat" where
  "pd_std xs =
     (let m = pd_mean xs
      in fsqrt (fdiv (fsum (map (\<lambda>v. fmul (fsub v m) (fsub v m)) xs))
                     (Fin (real (length xs) - 1))))"

text \<open>\<open>cummax()\<close> and \<open>min()\<close> skip NaN entries.\<close>

fun cummax_from :: "npfloat option \<Rightarrow> npfloat list \<Rightarrow> npfloat list" where
  "cummax_from m [] = []"
| "cummax_from m (v # vs) =
     (if isnan v then NaN # cummax_from m vs
      else (let m' = (case m of None \<Rightarrow> v | Some a \<Rightarrow> if flt a v then v else a)
            in m' # cummax_from (Some m') vs))"

definition cummax :: "npfloat list \<Rightarrow> npfloat list" where
  "cummax xs = cummax_from None xs"

definition pd_min :: "npfloat list \<Rightarrow> npfloat" where
  "pd_min xs =
     (case dropna xs of
        [] \<Rightarrow> NaN
      | v # vs \<Rightarrow> foldl (\<lambda>a b. if flt b a then b else a) v vs)"

definition gross_profit :: "npfloat list \<Rightarrow> npfloat" where
  "gross_profit r = fsum (filter (\<lambda>v. fgt v (Fin 0)) r)"

definition gross_loss :: "npfloat list \<Rightarrow> npfloat" where
  "gross_loss r = fabs (fsum (filter (\<lambda>v. flt v (Fin 0)) r))"

definition annualized_volatility :: "npfloat list \<Rightarrow> npfloat" where
  "annualized_volatility r = fmul (pd_std r) (Fin (sqrt 252))"

definition compute_metrics ::
  "metrics_lib \<Rightarrow> npfloat list \<Rightarrow> py_error + (string \<times> npfloat) list" where
  "compute_metrics lib returns =
     (let r = dropna returns in
      if length r = 0 then Inr []
      else
        (case py_truediv 252 (real (length r)) of
           Inl err \<Rightarrow> Inl err
         | Inr years \<Rightarrow>
             (let total = fsub (fprod (map (fadd (Fin 1)) r)) (Fin 1);
                  ann = fsub (np_power lib (fadd (Fin 1) total) (Fin years)) (Fin 1);
                  vol = annualized_volatility r;
                  cum = cumprod (map (fadd (Fin 1)) r);
                  dd = pd_min (map2 (\<lambda>c m. fdiv (fsub c m) m) cum (cummax cum));
                  wins = length (filter (\<lambda>v. fgt v (Fin 0)) r);
                  trades = length (filter (\<lambda>v. v \<noteq> Fin 0) r);
                  gp = gross_profit r;
                  gl = gross_loss r
              in Inr [(''total_return'', total),
                      (''annualized_return'', ann),
                      (''annualized_volatility'', vol),
                      (''sharpe_ratio'', if truthy vol then fdiv ann vol else Fin 0),
                      (''max_drawdown'', dd),
                      (''win_rate'', if trades \<noteq> 0 then Fin (real wins / real trades)
                                     else Fin 0),
                      (''profit_factor'', if truthy gl then fdiv gp gl else PInf),
                      (''num_trading_days'', Fin (real (length r))),
                      (''avg_daily_return'', pd_mean r),
                      (''skewness'', pd_skew lib r),
                      (''kurtosis'', pd_kurtosis lib r)])))"

text \<open>
  An instance of the library for example inputs: the power of a non-negative base, and
  the NaN pandas returns as skewness and kurtosis of fewer than three values.
\<close>

definition short_series_lib :: metrics_lib where
  "short_series_lib =
     \<lparr> np_power = (\<lambda>a e. case (a, e) of
                      (Fin b, Fin p) \<Rightarrow> if 0 < b \<and> 0 < p then Fin (b powr p) else NaN
                    | _ \<Rightarrow> NaN),
       pd_skew = (\<lambda>r. NaN),
       pd_kurtosis = (\<lambda>r. NaN) \<rparr>"

section \<open>Cointegration screening (tester.py)\<close>

record tester_cfg =
  significance :: real
  min_half_life :: real
  max_half_life :: real
  min_correlation :: real
  rolling_window :: int

text \<open>
  Library code, taken as parameters: \<open>np.linalg.lstsq(a, b, rcond=None)[0]\<close> for a matrix
  \<open>a\<close> of two columns (given by its rows) and a vector \<open>b\<close>, returning the two
  coefficients; statsmodels' \<open>adfuller(spread, autolag='AIC')\<close>, of which the statistic,
  the p-value and the critical values are used, and \<open>coint(y, x)\<close>, statistic and p-value;
  the entry of \<open>prices.pct_change().dropna().corr()\<close> for two tickers. Each of the first
  three returns or raises.
\<close>

record stats_api =
  lstsq :: "(npfloat \<times> npfloat) list \<Rightarrow> npfloat list \<Rightarrow> py_error + (real \<times> real)"
  adfuller :: "npfloat list \<Rightarrow> py_error + (npfloat \<times> npfloat \<times> (string \<times> npfloat) list)"
  coint :: "npfloat list \<Rightarrow> npfloat list \<Rightarrow> py_error + (npfloat \<times> npfloat)"
  corr :: "(string \<times> npfloat list) list \<Rightarrow> string \<Rightarrow> string \<Rightarrow> npfloat"

record eg_result =
  adf_statistic :: npfloat
  adf_pvalue :: npfloat
  coint_statistic :: npfloat
  coint_pvalue :: npfloat
  eg_hedge_ratio :: real
  eg_intercept :: real
  eg_spread :: "npfloat list"
  critical_values :: "(string \<times> npfloat) list"

definition engle_granger_test ::
  "stats_api \<Rightarrow> npfloat list \<Rightarrow> npfloat list \<Rightarrow> py_error + eg_result" where
  "engle_granger_test lib y x =
     (case lstsq lib (map (\<lambda>xv. (Fin 1, xv)) x) y of
        Inl err \<Rightarrow> Inl err
      | Inr (b0, b1) \<Rightarrow>
          (let spr = map2 (\<lambda>yv xv. fsub (fsub yv (fmul (Fin b1) xv)) (Fin b0)) y x
           in case adfuller lib spr of
                Inl err \<Rightarrow> Inl err
              | Inr (adf_stat, p_value, crit) \<Rightarrow>
                  (case coint lib y x of
                     Inl err \<Rightarrow> Inl err
                   | Inr (coint_stat, coint_p) \<Rightarrow>
                       Inr \<lparr> adf_statistic = adf_stat, adf_pvalue = p_value,
                             coint_statistic = coint_stat, coint_pvalue = coint_p,
                             eg_hedge_ratio = b1, eg_intercept = b0,
                             eg_spread = spr, critical_values = crit \<rparr>)))"

text \<open>\<open>spread[:-1]\<close> and \<open>np.diff(spread)\<close>.\<close>

definition spread_lag :: "npfloat list \<Rightarrow> npfloat list" where
  "spread_lag spr = butlast spr"

definition spread_diff :: "npfloat list \<Rightarrow> npfloat list" where
  "spread_diff spr = map2 (\<lambda>a b. fsub b a) (butlast spr) (tl spr)"

definition estimate_half_life :: "stats_api \<Rightarrow> npfloat list \<Rightarrow> py_error + npfloat" where
  "estimate_half_life lib spr =
     (case lstsq lib (map (\<lambda>v. (Fin 1, v)) (spread_lag spr)) (spread_diff spr) of
        Inl err \<Rightarrow> Inl err
      | Inr (b0, theta) \<Rightarrow>
          if theta \<ge> 0 then Inr PInf else Inr (Fin (- ln 2 / theta)))"

record pair_result =
  ticker_y :: string
  ticker_x :: string
  pair_hedge_ratio :: real
  pair_intercept :: real
  pair_coint_pvalue :: npfloat
  pair_adf_pvalue :: npfloat
  half_life :: npfloat
  correlation :: npfloat

text \<open>\<open>itertools.combinations(tickers, 2)\<close>.\<close>

fun combinations2 :: "'a list \<Rightarrow> ('a \<times> 'a) list" where
  "combinations2 [] = []"
| "combinations2 (a # as) = map (Pair a) as @ combinations2 as"

text \<open>
  A price panel is the list of its columns, all over one index; a missing price is NaN.
  \<open>aligned\<close> is the pair of columns after \<open>dropna\<close>, restricted to the common index.
\<close>

definition column :: "(string \<times> npfloat list) list \<Rightarrow> string \<Rightarrow> npfloat list" where
  "column prices t = (case map_of prices t of Some col \<Rightarrow> col | None \<Rightarrow> [])"

definition common_idx :: "npfloat list \<Rightarrow> npfloat list \<Rightarrow> nat list" where
  "common_idx y x =
     filter (\<lambda>i. i < length x \<and> \<not> isnan (y ! i) \<and> \<not> isnan (x ! i)) [0..<length y]"

definition aligned ::
  "(string \<times> npfloat list) list \<Rightarrow> string \<Rightarrow> string \<Rightarrow> npfloat list \<times> npfloat list" where
  "aligned prices ty tx =
     (let y = column prices ty; x = column prices tx; idx = common_idx y x
      in (map (\<lambda>i. y ! i) idx, map (\<lambda>i. x ! i) idx))"

text \<open>
  The loop of \<open>screen_universe\<close> over the candidate pairs, carrying \<open>valid_pairs\<close> and the
  warnings logged so far. Only \<open>engle_granger_test\<close> runs inside the \<open>try\<close>; an exception
  of \<open>estimate_half_life\<close> leaves the function.
\<close>

fun screen_loop ::
  "tester_cfg \<Rightarrow> stats_api \<Rightarrow> (string \<times> npfloat list) list \<Rightarrow> (string \<times> string) list
     \<Rightarrow> pair_result list \<times> (string \<times> string \<times> py_error) list
     \<Rightarrow> py_error + (pair_result list \<times> (string \<times> string \<times> py_error) list)" where
  "screen_loop c lib prices [] acc = Inr acc"
| "screen_loop c lib prices (pr # rest) acc =
     (if flt (fabs (corr lib prices (fst pr) (snd pr))) (Fin (min_correlation c))
      then screen_loop c lib prices rest acc
      else if int (length (fst (aligned prices (fst pr) (snd pr)))) < rolling_window c
      then screen_loop c lib prices rest acc
      else
        (case engle_granger_test lib (fst (aligned prices (fst pr) (snd pr)))
                                     (snd (aligned prices (fst pr) (snd pr))) of
           Inl err \<Rightarrow>
             screen_loop c lib prices rest (fst acc, snd acc @ [(fst pr, snd pr, err)])
         | Inr results \<Rightarrow>
             if fgt (coint_pvalue results) (Fin (significance c))
             then screen_loop c lib prices rest acc
             else
               (case estimate_half_life lib (eg_spread results) of
                  Inl err \<Rightarrow> Inl err
                | Inr hl \<Rightarrow>
                    if \<not> (fle (Fin (min_half_life c)) hl \<and> fle hl (Fin (max_half_life c)))
                    then screen_loop c lib prices rest acc
                    else screen_loop c lib prices rest
                           (fst acc @ [\<lparr> ticker_y = fst pr, ticker_x = snd pr,
                                          pair_hedge_ratio = eg_hedge_ratio results,
                                          pair_intercept = eg_intercept results,
                                          pair_coint_pvalue = coint_pvalue results,
                                          pair_adf_pvalue = adf_pvalue results,
                                          half_life = hl,
                                          correlation = corr lib prices (fst pr) (snd pr) \<rparr>],
                            snd acc))))"

text \<open>\<open>valid_pairs.sort(key=lambda p: p['half_life'])\<close>: stable, ascending.\<close>

fun insort_half_life :: "pair_result \<Rightarrow> pair_result list \<Rightarrow> pair_result list" where
  "insort_half_life p [] = [p]"
| "insort_half_life p (q # qs) =
     (if flt (half_life q) (half_life p) then q # insort_half_life p qs else p # q # qs)"

definition sort_half_life :: "pair_result list \<Rightarrow> pair_result list" where
  "sort_half_life ps = foldr insort_half_life ps []"

definition screen_universe ::
  "tester_cfg \<Rightarrow> stats_api \<Rightarrow> (string \<times> npfloat list) list
     \<Rightarrow> py_error + (pair_result list \<times> (string \<times> string \<times> py_error) list)" where
  "screen_universe c lib prices =
     (case screen_loop c lib prices (combinations2 (map fst prices)) ([], []) of
        Inl err \<Rightarrow> Inl err
      | Inr (valid_pairs, warnings) \<Rightarrow> Inr (sort_half_life valid_pairs, warnings))"

text \<open>
  An instance of the library for example inputs. \<open>np_lstsq\<close> is the least-squares solution
  numpy returns for the matrices this file builds, whose first column is ones and whose
  second column is \<open>xs\<close>: intercept and slope of the regression line, the solution of
  least norm when \<open>xs\<close> is constant, zeros for an empty system; \<open>LinAlgError\<close> for mismatched
  lengths and for entries that are not finite. The statistics of statsmodels and the
  correlation are stand-ins: the same significant test result and the same correlation
  for every input.
\<close>

definition real_of :: "npfloat \<Rightarrow> real" where
  "real_of v = (case v of Fin r \<Rightarrow> r | _ \<Rightarrow> 0)"

definition np_lstsq :: "(npfloat \<times> npfloat) list \<Rightarrow> npfloat list \<Rightarrow> py_error + (real \<times> real)" where
  "np_lstsq rows b =
     (if length rows \<noteq> length b \<or> \<not> list_all isfinite (map snd rows) \<or> \<not> list_all isfinite b
      then Inl LinAlgError
      else if rows = [] then Inr (0, 0)
      else
        (let xs = map (\<lambda>row. real_of (snd row)) rows;
             ys = map real_of b;
             n = real (length xs);
             xm = sum_list xs / n;
             ym = sum_list ys / n;
             sxx = sum_list (map (\<lambda>x. (x - xm) * (x - xm)) xs);
             sxy = sum_list (map2 (\<lambda>x y. (x - xm) * (y - ym)) xs ys)
         in if sxx = 0 then Inr (ym / (1 + xm * xm), ym * xm / (1 + xm * xm))
            else Inr (ym - sxy / sxx * xm, sxy / sxx)))"

definition example_api :: stats_api where
  "example_api =
     \<lparr> lstsq = np_lstsq,
       adfuller = (\<lambda>spr. Inr (Fin (- 4), Fin (1/100), [])),
       coint = (\<lambda>y x. Inr (Fin (- 4), Fin (1/100))),
       corr = (\<lambda>prices ty tx. Fin (9/10)) \<rparr>"

text \<open>
  The same library with one fault each: \<open>lstsq\<close> not converging on the half-life regression
  of the spread 0, -1, 0, 1, and \<open>adfuller\<close> failing on that spread.
\<close>

definition faulty_half_life_api :: stats_api where
  "faulty_half_life_api =
     example_api \<lparr> lstsq := (\<lambda>rows b.
        if rows = [(Fin 1, Fin 0), (Fin 1, Fin (- 1)), (Fin 1, Fin 0)] then Inl LinAlgError
        else np_lstsq rows b) \<rparr>"

definition faulty_adf_api :: stats_api where
  "faulty_adf_api =
     example_api \<lparr> adfuller := (\<lambda>spr.
        if spr = [Fin 0, Fin (- 1), Fin 0, Fin 1] then Inl LinAlgError
        else Inr (Fin (- 4), Fin (1/100), [])) \<rparr>"

definition example_tester_cfg :: tester_cfg where
  "example_tester_cfg =
     \<lparr> significance = 5/100, min_half_life = 1/2, max_half_life = 120,
       min_correlation = 1/2, rolling_window = 4 \<rparr>"

definition example_prices :: "(string \<times> npfloat list) list" where
  "example_prices =
     [(''A'', [Fin 10, Fin 10, Fin 12, Fin 12]),
      (''B'', [Fin 10, Fin 11, Fin 12, Fin 11]),
      (''C'', [Fin 11, Fin 10, Fin 11, Fin 12])]"

text \<open>
  For comparison, following the words of the specification: the least-squares fit of
  \<open>\<Delta>spread(t) = \<theta> * spread(t-1) + \<epsilon>\<close>, a regression through the origin, and the half-life
  it gives.
\<close>

definition theta_through_origin :: "real list \<Rightarrow> real" where
  "theta_through_origin s =
     sum_list (map2 (\<lambda>a b. a * (b - a)) (butlast s) (tl s))
       / sum_list (map (\<lambda>a. a * a) (butlast s))"

definition half_life_through_origin :: "real list \<Rightarrow> npfloat" where
  "half_life_through_origin s =
     (if theta_through_origin s \<ge> 0 then PInf else Fin (- ln 2 / theta_through_origin s))"

section \<open>Properties of the estimator\<close>

lemma length_kalman_path: "length (kalman_path k Vw s obs) = Suc (length obs)"
  by (induction obs arbitrary: s) simp_all

lemma kalman_path_0: "kalman_path k Vw s obs ! 0 = s"
  by (cases obs) simp_all

lemma kalman_path_hd_tl: "kalman_path k Vw s obs = s # tl (kalman_path k Vw s obs)"
  by (cases obs) simp_all

lemma kalman_path_Suc:
  "i < length obs \<Longrightarrow>
   kalman_path k Vw s obs ! Suc i = kalman_step k Vw (kalman_path k Vw s obs ! i) (obs ! i)"
proof (induction obs arbitrary: s i)
  case Nil
  then show ?case by simp
next
  case (Cons ob obs)
  show ?case
  proof (cases i)
    case 0
    then show ?thesis by (simp add: kalman_path_0)
  next
    case (Suc j)
    with Cons show ?thesis by simp
  qed
qed

lemma online_update_step:
  "Vw_of k = Inr Vw \<Longrightarrow>
   online_update k y_new x_new b P = Inr (kalman_step k Vw (b, P, e0) (y_new, x_new))"
  by (simp add: online_update_def kalman_step_def Let_def)

lemma replay_online_path:
  "Vw_of k = Inr Vw \<Longrightarrow>
   replay_online k b P obs = Inr (tl (kalman_path k Vw (b, P, e0) obs))"
proof (induction obs arbitrary: b P e0)
  case Nil
  then show ?case by simp
next
  case (Cons ob obs)
  obtain y_new x_new where ob: "ob = (y_new, x_new)" by (cases ob)
  obtain b' P' e' where st: "kalman_step k Vw (b, P, e0) (y_new, x_new) = (b', P', e')"
    by (cases "kalman_step k Vw (b, P, e0) (y_new, x_new)")
  have ind: "kalman_step k Vw (b, P, e0) (y_new, x_new) = kalman_step k Vw (b, P, e1) (y_new, x_new)" for e1
    by (simp add: kalman_step_def)
  have "replay_online k b' P' obs = Inr (tl (kalman_path k Vw (b', P', e') obs))"
    using Cons by blast
  moreover have "kalman_path k Vw (b', P', e') obs = b'P'e' # tl (kalman_path k Vw (b', P', e') obs)" if "b'P'e' = (b', P', e')" for b'P'e'
    using that by (cases obs) simp_all
  ultimately show ?case
    using Cons.prems st ob online_update_step[OF Cons.prems, of y_new x_new b P e0]
    by (cases obs) (simp_all)
qed

lemma filter_body_step:
  "filter_body k Vw y x (B, P, F) t =
     (case kalman_step k Vw (B ! (t - 1), P ! (t - 1), e0) (y ! t, x ! t) of
        (b', P', e') \<Rightarrow> (B[t := b'], P[t := P'], F[t := e']))"
  by (simp add: filter_body_def kalman_step_def Let_def)


lemma zip_tl_nth:
  "length y = n \<Longrightarrow> length x = n \<Longrightarrow> Suc i < n \<Longrightarrow>
   zip (tl y) (tl x) ! i = (y ! Suc i, x ! Suc i)"
  by (simp add: nth_tl)

lemma filter_fold_inv:
  assumes len: "length y = n" "length x = n"
    and m: "0 < m" "m \<le> n"
  shows "\<exists>B P F.
           foldl (filter_body k Vw y x)
             ((replicate n (Fin 0))[0 := b0], (replicate n (Fin 0))[0 := P0], replicate n (Fin 0))
             [1..<m] = (B, P, F)
           \<and> length B = n \<and> length P = n \<and> length F = n
           \<and> (\<forall>i<m. (B ! i, P ! i, F ! i) =
                  kalman_path k Vw (b0, P0, Fin 0) (zip (tl y) (tl x)) ! i)
           \<and> (\<forall>i. m \<le> i \<and> i < n \<longrightarrow> B ! i = Fin 0 \<and> P ! i = Fin 0 \<and> F ! i = Fin 0)"
  using m
proof (induction m)
  case 0
  then show ?case by simp
next
  case (Suc m)
  let ?full = "kalman_path k Vw (b0, P0, Fin 0) (zip (tl y) (tl x))"
  show ?case
  proof (cases "m = 0")
    case True
    then show ?thesis using Suc.prems by (auto simp: kalman_path_0)
  next
    case False
    then have m: "0 < m" "m \<le> n" "m < n" using Suc.prems by auto
    from Suc.IH[OF m(1,2)] obtain B P F where
      fold: "foldl (filter_body k Vw y x)
             ((replicate n (Fin 0))[0 := b0], (replicate n (Fin 0))[0 := P0], replicate n (Fin 0))
             [1..<m] = (B, P, F)"
      and lens: "length B = n" "length P = n" "length F = n"
      and pre: "\<forall>i<m. (B ! i, P ! i, F ! i) = ?full ! i"
      and post: "\<forall>i. m \<le> i \<and> i < n \<longrightarrow> B ! i = Fin 0 \<and> P ! i = Fin 0 \<and> F ! i = Fin 0"
      by blast
    obtain b' P' e' where st:
      "kalman_step k Vw (B ! (m - 1), P ! (m - 1), F ! (m - 1)) (y ! m, x ! m) = (b', P', e')"
      by (cases "kalman_step k Vw (B ! (m - 1), P ! (m - 1), F ! (m - 1)) (y ! m, x ! m)")
    have prev: "(B ! (m - 1), P ! (m - 1), F ! (m - 1)) = ?full ! (m - 1)"
      using pre m by simp
    have ob: "zip (tl y) (tl x) ! (m - 1) = (y ! m, x ! m)"
      using zip_tl_nth[OF len, of "m - 1"] m by simp
    have "?full ! Suc (m - 1) = kalman_step k Vw (?full ! (m - 1)) (zip (tl y) (tl x) ! (m - 1))"
      by (rule kalman_path_Suc) (use m len in simp)
    then have new: "?full ! m = (b', P', e')"
      using prev ob st m by simp
    have upt: "[1..<Suc m] = [1..<m] @ [m]" using m by simp
    have body: "filter_body k Vw y x (B, P, F) m = (B[m := b'], P[m := P'], F[m := e'])"
      using filter_body_step[of k Vw y x B P F m "F ! (m - 1)"] st by simp
    have "foldl (filter_body k Vw y x)
             ((replicate n (Fin 0))[0 := b0], (replicate n (Fin 0))[0 := P0], replicate n (Fin 0))
             [1..<Suc m] = (B[m := b'], P[m := P'], F[m := e'])"
      by (simp only: upt foldl_append fold foldl_Cons foldl_Nil body)
    moreover have "\<forall>i<Suc m. ((B[m := b']) ! i, (P[m := P']) ! i, (F[m := e']) ! i) = ?full ! i"
    proof (intro allI impI)
      fix i assume "i < Suc m"
      then consider "i = m" | "i < m" by linarith
      then show "((B[m := b']) ! i, (P[m := P']) ! i, (F[m := e']) ! i) = ?full ! i"
      proof cases
        case 1
        then show ?thesis using new lens m by simp
      next
        case 2
        then show ?thesis using pre by simp
      qed
    qed
    moreover have "\<forall>i. Suc m \<le> i \<and> i < n \<longrightarrow>
                     (B[m := b']) ! i = Fin 0 \<and> (P[m := P']) ! i = Fin 0 \<and> (F[m := e']) ! i = Fin 0"
      using post by simp
    ultimately show ?thesis using lens by simp
  qed
qed

lemma filter_fold_final:
  assumes len: "length y = n" "length x = n" and n: "0 < n"
  shows "foldl (filter_body k Vw y x)
             ((replicate n (Fin 0))[0 := b0], (replicate n (Fin 0))[0 := P0], replicate n (Fin 0))
             [1..<n] =
         (map fst (kalman_path k Vw (b0, P0, Fin 0) (zip (tl y) (tl x))),
          map (fst \<circ> snd) (kalman_path k Vw (b0, P0, Fin 0) (zip (tl y) (tl x))),
          map (snd \<circ> snd) (kalman_path k Vw (b0, P0, Fin 0) (zip (tl y) (tl x))))"
proof -
  let ?full = "kalman_path k Vw (b0, P0, Fin 0) (zip (tl y) (tl x))"
  from filter_fold_inv[OF len n order_refl, of k Vw b0 P0] obtain B P F where
      fold: "foldl (filter_body k Vw y x)
             ((replicate n (Fin 0))[0 := b0], (replicate n (Fin 0))[0 := P0], replicate n (Fin 0))
             [1..<n] = (B, P, F)"
      and lens: "length B = n" "length P = n" "length F = n"
      and pre: "\<forall>i<n. (B ! i, P ! i, F ! i) = ?full ! i"
    by blast
  have lf: "length ?full = n" using len n by (simp add: length_kalman_path)
  have pt: "B ! i = fst (?full ! i) \<and> P ! i = fst (snd (?full ! i)) \<and> F ! i = snd (snd (?full ! i))"
    if "i < n" for i
  proof -
    have "(B ! i, P ! i, F ! i) = ?full ! i" using pre that by blast
    then show ?thesis by (metis fst_conv snd_conv)
  qed
  have "B = map fst ?full"
    by (rule nth_equalityI) (use lens lf pt in simp_all)
  moreover have "P = map (fst \<circ> snd) ?full"
    by (rule nth_equalityI) (use lens lf pt in simp_all)
  moreover have "F = map (snd \<circ> snd) ?full"
    by (rule nth_equalityI) (use lens lf pt in simp_all)
  ultimately show ?thesis using fold by simp
qed


lemma Vw_of_Inr: "delta k \<noteq> 1 \<Longrightarrow> Vw_of k = Inr (Fin (delta k / (1 - delta k)))"
  by (simp add: Vw_of_def)

lemma filter_kalman_path:
  assumes "y \<noteq> []" "length x = length y" "Vw_of k = Inr Vw"
  shows "filter_kalman k y x =
     Inr \<lparr> hedge_ratio =
             map fst (kalman_path k Vw (Fin (initial_mean k), Fin (initial_cov k), Fin 0)
                        (zip (tl y) (tl x))),
           hedge_ratio_std =
             map fsqrt (map (fst \<circ> snd)
               (kalman_path k Vw (Fin (initial_mean k), Fin (initial_cov k), Fin 0)
                        (zip (tl y) (tl x)))),
           spread = map2 (\<lambda>yv (b, xv). fsub yv (fmul b xv)) y
             (zip (map fst (kalman_path k Vw (Fin (initial_mean k), Fin (initial_cov k), Fin 0)
                        (zip (tl y) (tl x)))) x),
           forecast_error =
             map (snd \<circ> snd) (kalman_path k Vw (Fin (initial_mean k), Fin (initial_cov k), Fin 0)
                        (zip (tl y) (tl x))) \<rparr>"
proof -
  have n: "0 < length y" using assms(1) by simp
  show ?thesis
    using assms n
    by (simp add: filter_kalman_def Let_def filter_fold_final[OF refl assms(2) n]
          del: One_nat_def)
qed

text \<open>
  Claim C1. For aligned, non-empty series and any configured prior, calling \<open>online_update\<close>
  once per observation from the second one on, starting from the prior and feeding each
  call the estimate of the previous one, returns exactly the hedge ratios and variances
  that \<open>filter\<close> writes (the output column holds the square roots of the variances), and
  the same forecast errors. Both entry points return: the only exception left is the
  division for \<open>Vw\<close> at \<open>delta = 1\<close>.
\<close>

theorem online_replay_reproduces_filter:
  assumes "y \<noteq> []" and "length x = length y" and "delta k \<noteq> 1"
  shows "\<exists>fr rows.
           filter_kalman k y x = Inr fr
         \<and> replay_online k (Fin (initial_mean k)) (Fin (initial_cov k)) (zip (tl y) (tl x))
             = Inr rows
         \<and> hedge_ratio fr = Fin (initial_mean k) # map fst rows
         \<and> hedge_ratio_std fr = map fsqrt (Fin (initial_cov k) # map (fst \<circ> snd) rows)
         \<and> forecast_error fr = Fin 0 # map (snd \<circ> snd) rows"
proof -
  let ?Vw = "Fin (delta k / (1 - delta k))"
  let ?s0 = "(Fin (initial_mean k), Fin (initial_cov k), Fin 0)"
  let ?full = "kalman_path k ?Vw ?s0 (zip (tl y) (tl x))"
  have vw: "Vw_of k = Inr ?Vw" using assms(3) by (rule Vw_of_Inr)
  have full: "?full = ?s0 # tl ?full"
    by (rule kalman_path_hd_tl)
  have rep: "replay_online k (Fin (initial_mean k)) (Fin (initial_cov k)) (zip (tl y) (tl x))
             = Inr (tl ?full)"
    by (rule replay_online_path[OF vw])
  have h: "map fst ?full = Fin (initial_mean k) # map fst (tl ?full)"
    by (subst full) simp
  have p: "map (fst \<circ> snd) ?full = Fin (initial_cov k) # map (fst \<circ> snd) (tl ?full)"
    by (subst full) simp
  have f: "map (snd \<circ> snd) ?full = Fin 0 # map (snd \<circ> snd) (tl ?full)"
    by (subst full) simp
  show ?thesis
    using filter_kalman_path[OF assms(1,2) vw] rep h p f by simp
qed


theorem online_replay_reproduces_filter_witness:
  "[Fin 1, Fin 2] \<noteq> [] \<and> length [Fin 1, Fin 1] = length [Fin 1, Fin 2]
   \<and> delta \<lparr>delta = 1/2, Ve = 1, initial_mean = 0, initial_cov = 1\<rparr> \<noteq> 1
   \<and> (\<exists>fr rows.
         filter_kalman \<lparr>delta = 1/2, Ve = 1, initial_mean = 0, initial_cov = 1\<rparr>
           [Fin 1, Fin 2] [Fin 1, Fin 1] = Inr fr
       \<and> replay_online \<lparr>delta = 1/2, Ve = 1, initial_mean = 0, initial_cov = 1\<rparr>
           (Fin 0) (Fin 1) [(Fin 2, Fin 1)] = Inr rows
       \<and> hedge_ratio fr = Fin 0 # map fst rows
       \<and> hedge_ratio_std fr = map fsqrt (Fin 1 # map (fst \<circ> snd) rows)
       \<and> forecast_error fr = Fin 0 # map (snd \<circ> snd) rows)"
  using online_replay_reproduces_filter
          [of "[Fin 1, Fin 2]" "[Fin 1, Fin 1]"
              "\<lparr>delta = 1/2, Ve = 1, initial_mean = 0, initial_cov = 1\<rparr>"]
  by simp

lemma online_update_SK:
  "Vw_of k = Inr Vw \<Longrightarrow>
   online_update k y_new x_new b P =
     Inr (fadd b (fmul (K_gain k x_new (fadd P Vw)) (fsub y_new (fmul b x_new))),
          fmul (fsub (Fin 1) (fmul (K_gain k x_new (fadd P Vw)) x_new)) (fadd P Vw),
          fsub y_new (fmul b x_new))"
  by (simp add: online_update_def K_gain_def S_innov_def Let_def)

lemma filter_body_SK:
  "filter_body k Vw y x (beta, P, fe) t =
     (beta[t := fadd (beta ! (t - 1))
                  (fmul (K_gain k (x ! t) (fadd (P ! (t - 1)) Vw))
                        (fsub (y ! t) (fmul (beta ! (t - 1)) (x ! t))))],
      P[t := fmul (fsub (Fin 1) (fmul (K_gain k (x ! t) (fadd (P ! (t - 1)) Vw)) (x ! t)))
                  (fadd (P ! (t - 1)) Vw)],
      fe[t := fsub (y ! t) (fmul (beta ! (t - 1)) (x ! t))])"
  by (simp add: filter_body_def K_gain_def S_innov_def Let_def)

lemma Vw_of_finite: "Vw_of k = Inr Vw \<Longrightarrow> isfinite Vw"
  by (auto simp: Vw_of_def split: if_splits)

lemma isfinite_Fin: "isfinite a \<Longrightarrow> \<exists>r. a = Fin r"
  by (cases a) simp_all

lemma zero_regressor_core:
  assumes "0 < Ve k" and "isfinite Vw" and "isfinite b" and "isfinite P" and "isfinite yv"
  shows "S_innov k (Fin 0) (fadd P Vw) = Fin (Ve k)"
    and "K_gain k (Fin 0) (fadd P Vw) = Fin 0"
    and "fsub yv (fmul b (Fin 0)) = yv"
    and "fadd b (fmul (Fin 0) yv) = b"
    and "fmul (fsub (Fin 1) (fmul (Fin 0) (Fin 0))) (fadd P Vw) = fadd P Vw"
proof -
  obtain vw where vw: "Vw = Fin vw" using assms(2) isfinite_Fin by blast
  obtain r where b: "b = Fin r" using assms(3) isfinite_Fin by blast
  obtain p where p: "P = Fin p" using assms(4) isfinite_Fin by blast
  obtain v where v: "yv = Fin v" using assms(5) isfinite_Fin by blast
  show "S_innov k (Fin 0) (fadd P Vw) = Fin (Ve k)"
    by (simp add: S_innov_def vw p)
  show "K_gain k (Fin 0) (fadd P Vw) = Fin 0"
    using assms(1) by (simp add: K_gain_def S_innov_def vw p)
  show "fsub yv (fmul b (Fin 0)) = yv"
    by (simp add: fsub_def b v)
  show "fadd b (fmul (Fin 0) yv) = b"
    by (simp add: b v)
  show "fmul (fsub (Fin 1) (fmul (Fin 0) (Fin 0))) (fadd P Vw) = fadd P Vw"
    by (simp add: fsub_def p vw)
qed

lemma isfinite_fadd_left: "isfinite (fadd a b) \<Longrightarrow> isfinite a"
  by (cases a; cases b) simp_all

text \<open>
  Claim C8, as stated, asks only for a zero regressor and a positive observation noise.
  That is not enough: the observation and the carried estimate reach the update
  unchecked, and a missing observation (NaN) at a zero regressor makes the forecast
  error NaN, so that the new hedge ratio \<open>beta_pred + K * e = 3 + 0 * NaN\<close> is NaN and not
  the carried 3, in \<open>online_update\<close> and in the loop body of \<open>filter\<close> alike. With a NaN
  carried variance the innovation variance \<open>0 * NaN * 0 + Ve\<close> is NaN as well, not the
  observation noise.
\<close>

theorem zero_regressor_nan_counterexample:
  "0 < Ve \<lparr>delta = 1/2, Ve = 1, initial_mean = 0, initial_cov = 1\<rparr>
   \<and> Vw_of \<lparr>delta = 1/2, Ve = 1, initial_mean = 0, initial_cov = 1\<rparr> = Inr (Fin 1)
   \<and> online_update \<lparr>delta = 1/2, Ve = 1, initial_mean = 0, initial_cov = 1\<rparr>
        NaN (Fin 0) (Fin 3) (Fin 2) = Inr (NaN, Fin 3, NaN)
   \<and> filter_body \<lparr>delta = 1/2, Ve = 1, initial_mean = 0, initial_cov = 1\<rparr> (Fin 1)
        [Fin 5, NaN] [Fin 1, Fin 0] ([Fin 3, Fin 0], [Fin 2, Fin 0], [Fin 0, Fin 0]) 1
       = ([Fin 3, NaN], [Fin 2, Fin 3], [Fin 0, NaN])
   \<and> NaN \<noteq> Fin 3
   \<and> S_innov \<lparr>delta = 1/2, Ve = 1, initial_mean = 0, initial_cov = 1\<rparr> (Fin 0)
        (fadd NaN (Fin 1)) = NaN
   \<and> online_update \<lparr>delta = 1/2, Ve = 1, initial_mean = 0, initial_cov = 1\<rparr>
        (Fin 5) (Fin 0) (Fin 3) NaN = Inr (NaN, NaN, Fin 5)"
  by (simp add: online_update_def filter_body_def S_innov_def Vw_of_def fsub_def Let_def)

text \<open>
  Claim C8, amended. At a step whose regressor \<open>x\<^sub>t\<close> is zero, with positive observation
  noise, and where the carried hedge ratio, the predicted variance \<open>P_pred\<close> and the
  observation \<open>y\<^sub>t\<close> are finite, the innovation variance \<open>S\<close> equals the observation noise
  and so is not zero, the gain \<open>K\<close> is zero, and the loop body of \<open>filter\<close> and
  \<open>online_update\<close> both keep the hedge ratio of the previous step (the variance becomes
  \<open>P_pred\<close>, the forecast error is \<open>y\<^sub>t\<close>).
\<close>

theorem zero_regressor_update:
  assumes "0 < Ve k" and "Vw_of k = Inr Vw" and "x ! t = Fin 0"
    and "isfinite (beta ! (t - 1))" and "isfinite (fadd (P ! (t - 1)) Vw)"
    and "isfinite (y ! t)"
  shows "S_innov k (x ! t) (fadd (P ! (t - 1)) Vw) = Fin (Ve k)
       \<and> S_innov k (x ! t) (fadd (P ! (t - 1)) Vw) \<noteq> Fin 0
       \<and> K_gain k (x ! t) (fadd (P ! (t - 1)) Vw) = Fin 0
       \<and> filter_body k Vw y x (beta, P, fe) t =
           (beta[t := beta ! (t - 1)], P[t := fadd (P ! (t - 1)) Vw], fe[t := y ! t])
       \<and> online_update k (y ! t) (x ! t) (beta ! (t - 1)) (P ! (t - 1)) =
           Inr (beta ! (t - 1), fadd (P ! (t - 1)) Vw, y ! t)"
proof -
  note core = zero_regressor_core[OF assms(1) Vw_of_finite[OF assms(2)] assms(4)
                isfinite_fadd_left[OF assms(5)] assms(6)]
  have S: "S_innov k (x ! t) (fadd (P ! (t - 1)) Vw) = Fin (Ve k)"
    unfolding assms(3) by (rule core(1))
  have S0: "S_innov k (x ! t) (fadd (P ! (t - 1)) Vw) \<noteq> Fin 0"
    unfolding S using assms(1) by simp
  have K: "K_gain k (x ! t) (fadd (P ! (t - 1)) Vw) = Fin 0"
    unfolding assms(3) by (rule core(2))
  have fb: "filter_body k Vw y x (beta, P, fe) t =
           (beta[t := beta ! (t - 1)], P[t := fadd (P ! (t - 1)) Vw], fe[t := y ! t])"
    unfolding filter_body_SK K unfolding assms(3) core(3,4,5) by (rule refl)
  have ou: "online_update k (y ! t) (x ! t) (beta ! (t - 1)) (P ! (t - 1)) =
           Inr (beta ! (t - 1), fadd (P ! (t - 1)) Vw, y ! t)"
    unfolding online_update_SK[OF assms(2)] K unfolding assms(3) core(3,4,5) by (rule refl)
  show ?thesis using S S0 K fb ou by blast
qed


theorem zero_regressor_update_witness:
  "0 < Ve \<lparr>delta = 1/2, Ve = 1, initial_mean = 0, initial_cov = 1\<rparr>
   \<and> Vw_of \<lparr>delta = 1/2, Ve = 1, initial_mean = 0, initial_cov = 1\<rparr> = Inr (Fin 1)
   \<and> [Fin 1, Fin 0] ! 1 = Fin 0
   \<and> isfinite ([Fin 3, Fin 0] ! (1 - 1)) \<and> isfinite (fadd ([Fin 2, Fin 0] ! (1 - 1)) (Fin 1))
   \<and> isfinite ([Fin 5, Fin 7] ! 1)
   \<and> S_innov \<lparr>delta = 1/2, Ve = 1, initial_mean = 0, initial_cov = 1\<rparr> (Fin 0) (Fin 3) = Fin 1
   \<and> K_gain \<lparr>delta = 1/2, Ve = 1, initial_mean = 0, initial_cov = 1\<rparr> (Fin 0) (Fin 3) = Fin 0
   \<and> filter_body \<lparr>delta = 1/2, Ve = 1, initial_mean = 0, initial_cov = 1\<rparr> (Fin 1)
        [Fin 5, Fin 7] [Fin 1, Fin 0] ([Fin 3, Fin 0], [Fin 2, Fin 0], [Fin 0, Fin 0]) 1
       = ([Fin 3, Fin 3], [Fin 2, Fin 3], [Fin 0, Fin 7])
   \<and> online_update \<lparr>delta = 1/2, Ve = 1, initial_mean = 0, initial_cov = 1\<rparr>
        (Fin 7) (Fin 0) (Fin 3) (Fin 2) = Inr (Fin 3, Fin 3, Fin 7)"
  using zero_regressor_update
          [of "\<lparr>delta = 1/2, Ve = 1, initial_mean = 0, initial_cov = 1\<rparr>" "Fin 1"
              "[Fin 1, Fin 0]" 1 "[Fin 3, Fin 0]" "[Fin 2, Fin 0]" "[Fin 5, Fin 7]"
              "[Fin 0, Fin 0]"]
  by (simp add: Vw_of_def)

text \<open>
  Claim C10. On non-empty aligned series, the first row of the output of \<open>filter\<close> is the
  configured prior: hedge ratio \<open>initial_mean\<close>, standard deviation \<open>sqrt(initial_cov)\<close>,
  forecast error 0, spread \<open>y\<^sub>0 - initial_mean * x\<^sub>0\<close>. The first observation never enters
  the estimate (replacing it changes no hedge ratio, standard deviation or forecast error),
  and the second row is one update of the prior with the second observation.
\<close>

theorem filter_first_row_is_prior:
  assumes "y \<noteq> []" and "length x = length y" and "delta k \<noteq> 1"
  shows "\<exists>fr. filter_kalman k y x = Inr fr
       \<and> hedge_ratio fr ! 0 = Fin (initial_mean k)
       \<and> hedge_ratio_std fr ! 0 = fsqrt (Fin (initial_cov k))
       \<and> forecast_error fr ! 0 = Fin 0
       \<and> spread fr ! 0 = fsub (y ! 0) (fmul (Fin (initial_mean k)) (x ! 0))
       \<and> (\<forall>y0 x0. \<exists>fr'. filter_kalman k (y0 # tl y) (x0 # tl x) = Inr fr'
             \<and> hedge_ratio fr' = hedge_ratio fr
             \<and> hedge_ratio_std fr' = hedge_ratio_std fr
             \<and> forecast_error fr' = forecast_error fr)
       \<and> (1 < length y \<longrightarrow>
            (\<exists>P1. online_update k (y ! 1) (x ! 1) (Fin (initial_mean k)) (Fin (initial_cov k))
                     = Inr (hedge_ratio fr ! 1, P1, forecast_error fr ! 1)
                 \<and> hedge_ratio_std fr ! 1 = fsqrt P1))"
proof -
  let ?Vw = "Fin (delta k / (1 - delta k))"
  let ?s0 = "(Fin (initial_mean k), Fin (initial_cov k), Fin 0 :: npfloat)"
  let ?obs = "zip (tl y) (tl x)"
  let ?full = "kalman_path k ?Vw ?s0 ?obs"
  let ?FR = "\<lparr> hedge_ratio = map fst ?full,
           hedge_ratio_std = map fsqrt (map (fst \<circ> snd) ?full),
           spread = map2 (\<lambda>yv (b, xv). fsub yv (fmul b xv)) y (zip (map fst ?full) x),
           forecast_error = map (snd \<circ> snd) ?full \<rparr>"
  have vw: "Vw_of k = Inr ?Vw" using assms(3) by (rule Vw_of_Inr)
  have fr: "filter_kalman k y x = Inr ?FR"
    by (rule filter_kalman_path[OF assms(1,2) vw])
  have full: "?full = ?s0 # tl ?full" by (rule kalman_path_hd_tl)
  obtain y0 ys where y: "y = y0 # ys" using assms(1) by (cases y) auto
  obtain x0 xs where x: "x = x0 # xs" using assms(1,2) by (cases x) auto
  have l0: "0 < length ?full" by (simp add: length_kalman_path)
  have f0: "?full ! 0 = ?s0" by (rule kalman_path_0)
  have c1: "hedge_ratio ?FR ! 0 = Fin (initial_mean k)"
    using l0 f0 by (simp del: fsqrt.simps)
  have c2: "hedge_ratio_std ?FR ! 0 = fsqrt (Fin (initial_cov k))"
    using l0 f0 by (simp del: fsqrt.simps)
  have c3: "forecast_error ?FR ! 0 = Fin 0"
    using l0 f0 by (simp del: fsqrt.simps)
  have "map fst ?full = Fin (initial_mean k) # map fst (tl ?full)"
    by (subst full) simp
  then have c4: "spread ?FR ! 0 = fsub (y ! 0) (fmul (Fin (initial_mean k)) (x ! 0))"
    by (simp add: y x)
  have c5: "\<exists>fr'. filter_kalman k (y0' # tl y) (x0' # tl x) = Inr fr'
             \<and> hedge_ratio fr' = hedge_ratio ?FR
             \<and> hedge_ratio_std fr' = hedge_ratio_std ?FR
             \<and> forecast_error fr' = forecast_error ?FR" for y0' x0'
  proof -
    have "filter_kalman k (y0' # tl y) (x0' # tl x) =
      Inr \<lparr> hedge_ratio = map fst ?full,
           hedge_ratio_std = map fsqrt (map (fst \<circ> snd) ?full),
           spread = map2 (\<lambda>yv (b, xv). fsub yv (fmul b xv)) (y0' # tl y)
                      (zip (map fst ?full) (x0' # tl x)),
           forecast_error = map (snd \<circ> snd) ?full \<rparr>"
      using filter_kalman_path[OF _ _ vw, of "y0' # tl y" "x0' # tl x"] assms(2) y x
      by simp
    then show ?thesis by simp
  qed
  have c6: "\<exists>P1. online_update k (y ! 1) (x ! 1) (Fin (initial_mean k)) (Fin (initial_cov k))
                     = Inr (hedge_ratio ?FR ! 1, P1, forecast_error ?FR ! 1)
                 \<and> hedge_ratio_std ?FR ! 1 = fsqrt P1" if l: "1 < length y"
  proof -
    have lobs: "0 < length ?obs" using l assms(2) by simp
    have ob: "?obs ! 0 = (y ! 1, x ! 1)"
      using zip_tl_nth[OF refl assms(2), of 0] l by simp
    have st: "?full ! Suc 0 = kalman_step k ?Vw (?full ! 0) (?obs ! 0)"
      by (rule kalman_path_Suc[OF lobs])
    obtain b1 P1 e1 where s1: "kalman_step k ?Vw ?s0 (y ! 1, x ! 1) = (b1, P1, e1)"
      by (cases "kalman_step k ?Vw ?s0 (y ! 1, x ! 1)")
    have f1: "?full ! 1 = (b1, P1, e1)"
      using st ob s1 by (simp add: kalman_path_0)
    have lf: "1 < length ?full" using lobs by (simp add: length_kalman_path)
    have ou: "online_update k (y ! 1) (x ! 1) (Fin (initial_mean k)) (Fin (initial_cov k))
            = Inr (b1, P1, e1)"
      using online_update_step[OF vw, of "y ! 1" "x ! 1" "Fin (initial_mean k)"
               "Fin (initial_cov k)" "Fin 0"] s1 by simp
    have "hedge_ratio ?FR ! 1 = b1" "forecast_error ?FR ! 1 = e1"
         "hedge_ratio_std ?FR ! 1 = fsqrt P1"
      using f1 lf by (simp_all del: fsqrt.simps)
    then show ?thesis using ou by simp
  qed
  have "filter_kalman k y x = Inr ?FR
       \<and> hedge_ratio ?FR ! 0 = Fin (initial_mean k)
       \<and> hedge_ratio_std ?FR ! 0 = fsqrt (Fin (initial_cov k))
       \<and> forecast_error ?FR ! 0 = Fin 0
       \<and> spread ?FR ! 0 = fsub (y ! 0) (fmul (Fin (initial_mean k)) (x ! 0))
       \<and> (\<forall>y0 x0. \<exists>fr'. filter_kalman k (y0 # tl y) (x0 # tl x) = Inr fr'
             \<and> hedge_ratio fr' = hedge_ratio ?FR
             \<and> hedge_ratio_std fr' = hedge_ratio_std ?FR
             \<and> forecast_error fr' = forecast_error ?FR)
       \<and> (1 < length y \<longrightarrow>
            (\<exists>P1. online_update k (y ! 1) (x ! 1) (Fin (initial_mean k)) (Fin (initial_cov k))
                     = Inr (hedge_ratio ?FR ! 1, P1, forecast_error ?FR ! 1)
                 \<and> hedge_ratio_std ?FR ! 1 = fsqrt P1))"
    using fr c1 c2 c3 c4 c5 c6 by blast
  then show ?thesis by (intro exI[where x = "?FR"])
qed


theorem filter_first_row_is_prior_witness:
  "[Fin 1, Fin 2] \<noteq> [] \<and> length [Fin 1, Fin 1] = length [Fin 1, Fin 2 :: npfloat]
   \<and> delta \<lparr>delta = 1/2, Ve = 1, initial_mean = 0, initial_cov = 1\<rparr> \<noteq> 1
   \<and> (\<exists>fr. filter_kalman \<lparr>delta = 1/2, Ve = 1, initial_mean = 0, initial_cov = 1\<rparr>
              [Fin 1, Fin 2] [Fin 1, Fin 1] = Inr fr
       \<and> hedge_ratio fr ! 0 = Fin 0
       \<and> hedge_ratio_std fr ! 0 = Fin 1
       \<and> forecast_error fr ! 0 = Fin 0
       \<and> spread fr ! 0 = Fin 1
       \<and> (\<forall>y0 x0. \<exists>fr'. filter_kalman \<lparr>delta = 1/2, Ve = 1, initial_mean = 0, initial_cov = 1\<rparr>
               [y0, Fin 2] [x0, Fin 1] = Inr fr'
             \<and> hedge_ratio fr' = hedge_ratio fr
             \<and> hedge_ratio_std fr' = hedge_ratio_std fr
             \<and> forecast_error fr' = forecast_error fr)
       \<and> (\<exists>P1. online_update \<lparr>delta = 1/2, Ve = 1, initial_mean = 0, initial_cov = 1\<rparr>
                   (Fin 2) (Fin 1) (Fin 0) (Fin 1)
                     = Inr (hedge_ratio fr ! 1, P1, forecast_error fr ! 1)
                 \<and> hedge_ratio_std fr ! 1 = fsqrt P1))"
  using filter_first_row_is_prior
          [of "[Fin 1, Fin 2]" "[Fin 1, Fin 1]"
              "\<lparr>delta = 1/2, Ve = 1, initial_mean = 0, initial_cov = 1\<rparr>"]
  by (simp add: fsub_def)

section \<open>Properties of the signal generator\<close>

lemma length_carried: "length (carried c p zs) = Suc (length zs)"
  by (induction zs arbitrary: p) simp_all

lemma length_recorded: "length (recorded c p zs) = length zs"
  by (induction zs arbitrary: p) simp_all

lemma carried_0: "carried c p zs ! 0 = p"
  by (cases zs) simp_all

lemma carried_Suc:
  "i < length zs \<Longrightarrow> carried c p zs ! Suc i = carry_step c (carried c p zs ! i) (zs ! i)"
proof (induction zs arbitrary: p i)
  case Nil
  then show ?case by simp
next
  case (Cons z zs)
  show ?case
  proof (cases i)
    case 0
    then show ?thesis by (simp add: carried_0)
  next
    case (Suc j)
    with Cons show ?thesis by simp
  qed
qed

lemma recorded_nth:
  "i < length zs \<Longrightarrow>
   recorded c p zs ! i =
     (if isnan (zs ! i) then 0 else position_step c (carried c p zs ! i) (zs ! i))"
proof (induction zs arbitrary: p i)
  case Nil
  then show ?case by simp
next
  case (Cons z zs)
  show ?case
  proof (cases i)
    case 0
    then show ?thesis by simp
  next
    case (Suc j)
    with Cons show ?thesis by simp
  qed
qed

lemma signal_body_step:
  "signal_body c zs (p, col) i =
     (carry_step c p (zs ! i),
      if isnan (zs ! i) then col else col[i := position_step c p (zs ! i)])"
  by (simp add: signal_body_def carry_step_def Let_def)

lemma position_fold_inv:
  assumes n: "length zs = n" and m: "0 < m" "m \<le> n"
  shows "\<exists>col. foldl (signal_body c zs) (0, replicate n 0) [1..<m]
                 = (carried c 0 (tl zs) ! (m - 1), col)
           \<and> length col = n
           \<and> (\<forall>i<m. col ! i = (0 # recorded c 0 (tl zs)) ! i)
           \<and> (\<forall>i. m \<le> i \<and> i < n \<longrightarrow> col ! i = 0)"
  using m
proof (induction m)
  case 0
  then show ?case by simp
next
  case (Suc m)
  let ?S = "carried c 0 (tl zs)"
  let ?R = "0 # recorded c 0 (tl zs)"
  show ?case
  proof (cases "m = 0")
    case True
    then show ?thesis using Suc.prems by (auto simp: carried_0)
  next
    case False
    then have m: "0 < m" "m \<le> n" "m < n" using Suc.prems by auto
    from Suc.IH[OF m(1,2)] obtain col where
      fold: "foldl (signal_body c zs) (0, replicate n 0) [1..<m] = (?S ! (m - 1), col)"
      and len: "length col = n"
      and pre: "\<forall>i<m. col ! i = ?R ! i"
      and post: "\<forall>i. m \<le> i \<and> i < n \<longrightarrow> col ! i = 0"
      by blast
    have tl: "tl zs ! (m - 1) = zs ! m" using m n by (simp add: nth_tl)
    have ltl: "m - 1 < length (tl zs)" using m n by simp
    have S: "?S ! m = carry_step c (?S ! (m - 1)) (zs ! m)"
      using carried_Suc[OF ltl, of c 0] tl m by simp
    have R: "?R ! m = (if isnan (zs ! m) then 0
                       else position_step c (?S ! (m - 1)) (zs ! m))"
      using recorded_nth[OF ltl, of c 0] tl m by (cases m) simp_all
    let ?col' = "if isnan (zs ! m) then col
                 else col[m := position_step c (?S ! (m - 1)) (zs ! m)]"
    have upt: "[1..<Suc m] = [1..<m] @ [m]" using m by simp
    have step: "foldl (signal_body c zs) (0, replicate n 0) [1..<Suc m] = (?S ! m, ?col')"
      by (simp only: upt foldl_append fold foldl_Cons foldl_Nil signal_body_step S)
    have l': "length ?col' = n" using len by simp
    have colm: "?col' ! m = ?R ! m"
      using R post m len by simp
    have pre': "\<forall>i<Suc m. ?col' ! i = ?R ! i"
    proof (intro allI impI)
      fix i assume "i < Suc m"
      then consider "i = m" | "i < m" by linarith
      then show "?col' ! i = ?R ! i"
      proof cases
        case 1
        then show ?thesis using colm by simp
      next
        case 2
        then show ?thesis using pre by simp
      qed
    qed
    have post': "\<forall>i. Suc m \<le> i \<and> i < n \<longrightarrow> ?col' ! i = 0"
      using post by simp
    have "foldl (signal_body c zs) (0, replicate n 0) [1..<Suc m] = (?S ! (Suc m - 1), ?col')
           \<and> length ?col' = n
           \<and> (\<forall>i<Suc m. ?col' ! i = ?R ! i)
           \<and> (\<forall>i. Suc m \<le> i \<and> i < n \<longrightarrow> ?col' ! i = 0)"
      using step l' pre' post' by simp
    then show ?thesis by (intro exI[where x = "?col'"])
  qed
qed

lemma position_loop_recorded:
  assumes "zs \<noteq> []"
  shows "snd (position_loop c zs) = 0 # recorded c 0 (tl zs)"
proof -
  have n: "0 < length zs" using assms by simp
  from position_fold_inv[OF refl n order_refl, of c] obtain col where
    fold: "foldl (signal_body c zs) (0, replicate (length zs) 0) [1..<length zs]
                 = (carried c 0 (tl zs) ! (length zs - 1), col)"
    and len: "length col = length zs"
    and pre: "\<forall>i<length zs. col ! i = (0 # recorded c 0 (tl zs)) ! i"
    by blast
  have "col = 0 # recorded c 0 (tl zs)"
    by (rule nth_equalityI) (use len pre n in \<open>simp_all add: length_recorded\<close>)
  then show ?thesis using fold by (simp add: position_loop_def del: One_nat_def)
qed

lemma position_loop_Nil: "snd (position_loop c []) = []"
  by (simp add: position_loop_def)

lemma generate_signals_fields:
  "zscore (generate_signals c lib y x hedge intercept)
     = compute_zscore c lib (compute_spread y x hedge intercept)"
  "position (generate_signals c lib y x hedge intercept)
     = snd (position_loop c (zscore (generate_signals c lib y x hedge intercept)))"
  "confidence (generate_signals c lib y x hedge intercept)
     = map (confidence_of c) (zscore (generate_signals c lib y x hedge intercept))"
  by (simp_all add: generate_signals_def Let_def)









lemma sqrt_961: "sqrt 961 = 31"
  by (rule real_sqrt_unique) simp_all

lemma sqrt_49: "sqrt 49 = 7"
  by (rule real_sqrt_unique) simp_all

lemmas signals_eval = generate_signals_def compute_spread_def compute_zscore_def rolling_lib_def
  pd_rolling_mean_def pd_rolling_std_def window_at_def fsum_def series_get_def fsub_def
  position_loop_def signal_body_def position_step_def fgt_def Let_def example_cfg_def
  confidence_of_def clip_def fmaximum_def fminimum_def in_band_def sqrt_961 sqrt_49 upt_rec




lemma foldl_signal_body_nan:
  assumes "isnan (zs ! t)"
  shows "fst (foldl (signal_body c zs) init [1..<Suc t]) = fst (foldl (signal_body c zs) init [1..<t])"
proof (cases "t = 0")
  case True
  then show ?thesis by simp
next
  case False
  then have upt: "[1..<Suc t] = [1..<t] @ [t]" by simp
  obtain p col where st: "foldl (signal_body c zs) init [1..<t] = (p, col)"
    by (cases "foldl (signal_body c zs) init [1..<t]")
  show ?thesis
    using assms by (simp only: upt foldl_append foldl_Cons foldl_Nil st signal_body_step
        carry_step_def if_True fst_conv)
qed

text \<open>
  Claim C4. The claim does not hold of the code. At a step whose z-score is NaN the loop
  \<open>continue\<close>s before the write to the column, so the position recorded there is the 0 the
  column was filled with, whatever was recorded one step earlier; only the loop variable
  persists, and the next defined step continues from it.
\<close>

theorem nan_step_records_flat:
  assumes "t < length (zscore (generate_signals c lib y x hedge intercept))"
    and "isnan (zscore (generate_signals c lib y x hedge intercept) ! t)"
  shows "position (generate_signals c lib y x hedge intercept) ! t = 0
       \<and> fst (foldl (signal_body c (zscore (generate_signals c lib y x hedge intercept)))
                (0, replicate (length (zscore (generate_signals c lib y x hedge intercept))) 0)
                [1..<Suc t])
         = fst (foldl (signal_body c (zscore (generate_signals c lib y x hedge intercept)))
                (0, replicate (length (zscore (generate_signals c lib y x hedge intercept))) 0)
                [1..<t])"
proof -
  let ?zs = "zscore (generate_signals c lib y x hedge intercept)"
  have ne: "?zs \<noteq> []" using assms(1) by auto
  have pos: "position (generate_signals c lib y x hedge intercept) = 0 # recorded c 0 (tl ?zs)"
    using position_loop_recorded[OF ne, of c] by (simp add: generate_signals_fields(2))
  have a: "(0 # recorded c 0 (tl ?zs)) ! t = 0"
  proof (cases t)
    case 0
    then show ?thesis by simp
  next
    case (Suc j)
    then have j: "j < length (tl ?zs)" using assms(1) by simp
    have "tl ?zs ! j = ?zs ! t" using Suc assms(1) by (simp add: nth_tl)
    then show ?thesis using recorded_nth[OF j, of c 0] assms(2) Suc by simp
  qed
  show ?thesis using pos a foldl_signal_body_nan[OF assms(2)] by simp
qed

theorem nan_step_records_flat_witness:
  "3 < length (zscore (generate_signals example_cfg rolling_lib
        [Fin 1, Fin 3, Fin 5, NaN, Fin 0, Fin 11, Fin 13]
        [Fin 0, Fin 0, Fin 0, Fin 0, Fin 0, Fin 0, Fin 0] (Fin 1) (Fin 0)))
   \<and> isnan (zscore (generate_signals example_cfg rolling_lib
        [Fin 1, Fin 3, Fin 5, NaN, Fin 0, Fin 11, Fin 13]
        [Fin 0, Fin 0, Fin 0, Fin 0, Fin 0, Fin 0, Fin 0] (Fin 1) (Fin 0)) ! 3)
   \<and> zscore (generate_signals example_cfg rolling_lib
        [Fin 1, Fin 3, Fin 5, NaN, Fin 0, Fin 11, Fin 13]
        [Fin 0, Fin 0, Fin 0, Fin 0, Fin 0, Fin 0, Fin 0] (Fin 1) (Fin 0))
       = [NaN, NaN, Fin 1, NaN, NaN, NaN, Fin (5/7)]
   \<and> position (generate_signals example_cfg rolling_lib
        [Fin 1, Fin 3, Fin 5, NaN, Fin 0, Fin 11, Fin 13]
        [Fin 0, Fin 0, Fin 0, Fin 0, Fin 0, Fin 0, Fin 0] (Fin 1) (Fin 0)) ! 3 = 0
   \<and> position (generate_signals example_cfg rolling_lib
        [Fin 1, Fin 3, Fin 5, NaN, Fin 0, Fin 11, Fin 13]
        [Fin 0, Fin 0, Fin 0, Fin 0, Fin 0, Fin 0, Fin 0] (Fin 1) (Fin 0)) ! 2 = - 1
   \<and> position (generate_signals example_cfg rolling_lib
        [Fin 1, Fin 3, Fin 5, NaN, Fin 0, Fin 11, Fin 13]
        [Fin 0, Fin 0, Fin 0, Fin 0, Fin 0, Fin 0, Fin 0] (Fin 1) (Fin 0))
       = [0, 0, - 1, 0, 0, 0, - 1]
   \<and> in_band example_cfg (Fin (5/7))"
  using nan_step_records_flat[of 3 example_cfg rolling_lib
          "[Fin 1, Fin 3, Fin 5, NaN, Fin 0, Fin 11, Fin 13]"
          "[Fin 0, Fin 0, Fin 0, Fin 0, Fin 0, Fin 0, Fin 0]" "Fin 1" "Fin 0"]
  by (simp add: signals_eval)

lemma clip_unit_nan_iff: "isnan (clip a (Fin 0) (Fin 1)) \<longleftrightarrow> isnan a"
  by (cases a) (simp_all add: clip_def fmaximum_def fminimum_def)

lemma clip_unit_range:
  "\<not> isnan (clip a (Fin 0) (Fin 1))
     \<Longrightarrow> fle (Fin 0) (clip a (Fin 0) (Fin 1)) \<and> fle (clip a (Fin 0) (Fin 1)) (Fin 1)"
  by (cases a) (auto simp: clip_def fmaximum_def fminimum_def fle_def)

lemma confidence_of_nan_iff:
  "isnan (confidence_of c z)
     \<longleftrightarrow> isnan z \<or> (entry_z c = exit_z c \<and> fabs z = Fin (exit_z c))"
  unfolding confidence_of_def clip_unit_nan_iff
  by (cases z) (auto simp: fsub_def)

lemma confidence_of_range:
  "\<not> isnan (confidence_of c z)
     \<Longrightarrow> fle (Fin 0) (confidence_of c z) \<and> fle (confidence_of c z) (Fin 1)"
  unfolding confidence_of_def by (rule clip_unit_range)

text \<open>
  Claim C9, as stated, puts every confidence value in [0, 1]. The value is the clip of
  the claim, but \<open>np.clip\<close> passes NaN through: where the z-score is undefined, as on the
  first rows of every rolling window, the confidence is NaN. With \<open>entry_z = exit_z\<close> it
  is NaN as well at a z-score of absolute value \<open>exit_z\<close> (\<open>0 / 0\<close>).
\<close>

theorem confidence_nan_counterexample:
  "confidence (generate_signals example_cfg rolling_lib
        [Fin 0, Fin 13, Fin 59, Fin 72, Fin 61, Fin 74, Fin 120]
        [Fin 0, Fin 0, Fin 0, Fin 0, Fin 0, Fin 0, Fin 0] (Fin 1) (Fin 0))
       = [NaN, NaN, Fin 1, Fin (85/124), Fin 0, Fin (15/28), Fin 1]
   \<and> \<not> fle (Fin 0) NaN \<and> \<not> fle NaN (Fin 1)
   \<and> zscore (generate_signals (example_cfg \<lparr> entry_z := 1, exit_z := 1 \<rparr>) rolling_lib
        [Fin 1, Fin 3, Fin 5] [Fin 0, Fin 0, Fin 0] (Fin 1) (Fin 0)) = [NaN, NaN, Fin 1]
   \<and> confidence (generate_signals (example_cfg \<lparr> entry_z := 1, exit_z := 1 \<rparr>) rolling_lib
        [Fin 1, Fin 3, Fin 5] [Fin 0, Fin 0, Fin 0] (Fin 1) (Fin 0)) = [NaN, NaN, NaN]"
  by (simp add: signals_eval fle_def)

text \<open>
  Claim C9, amended. At every row the confidence is
  \<open>clip((|z| - exit_z) / (entry_z - exit_z), 0, 1)\<close>. It is NaN exactly where the z-score is
  NaN, or \<open>entry_z = exit_z\<close> and \<open>|z| = exit_z\<close>; everywhere else it lies in [0, 1].
\<close>

theorem confidence_is_clip:
  assumes "t < length (confidence (generate_signals c lib y x hedge intercept))"
  shows "confidence (generate_signals c lib y x hedge intercept) ! t
           = clip (fdiv (fsub (fabs (zscore (generate_signals c lib y x hedge intercept) ! t))
                              (Fin (exit_z c)))
                        (Fin (entry_z c - exit_z c))) (Fin 0) (Fin 1)
       \<and> (isnan (confidence (generate_signals c lib y x hedge intercept) ! t)
            \<longleftrightarrow> isnan (zscore (generate_signals c lib y x hedge intercept) ! t)
               \<or> (entry_z c = exit_z c
                  \<and> fabs (zscore (generate_signals c lib y x hedge intercept) ! t)
                      = Fin (exit_z c)))
       \<and> (\<not> isnan (confidence (generate_signals c lib y x hedge intercept) ! t)
            \<longrightarrow> fle (Fin 0) (confidence (generate_signals c lib y x hedge intercept) ! t)
               \<and> fle (confidence (generate_signals c lib y x hedge intercept) ! t) (Fin 1))"
proof -
  let ?zs = "zscore (generate_signals c lib y x hedge intercept)"
  have t: "t < length ?zs" using assms by (simp add: generate_signals_fields(3))
  have cf: "confidence (generate_signals c lib y x hedge intercept) ! t = confidence_of c (?zs ! t)"
    using t by (simp add: generate_signals_fields(3))
  show ?thesis
    unfolding cf using confidence_of_nan_iff[of c "?zs ! t"] confidence_of_range[of c "?zs ! t"]
    by (simp add: confidence_of_def)
qed

theorem confidence_is_clip_witness:
  "3 < length (confidence (generate_signals example_cfg rolling_lib
        [Fin 0, Fin 13, Fin 59, Fin 72, Fin 61, Fin 74, Fin 120]
        [Fin 0, Fin 0, Fin 0, Fin 0, Fin 0, Fin 0, Fin 0] (Fin 1) (Fin 0)))
   \<and> zscore (generate_signals example_cfg rolling_lib
        [Fin 0, Fin 13, Fin 59, Fin 72, Fin 61, Fin 74, Fin 120]
        [Fin 0, Fin 0, Fin 0, Fin 0, Fin 0, Fin 0, Fin 0] (Fin 1) (Fin 0)) ! 3 = Fin (24/31)
   \<and> confidence (generate_signals example_cfg rolling_lib
        [Fin 0, Fin 13, Fin 59, Fin 72, Fin 61, Fin 74, Fin 120]
        [Fin 0, Fin 0, Fin 0, Fin 0, Fin 0, Fin 0, Fin 0] (Fin 1) (Fin 0)) ! 3 = Fin (85/124)
   \<and> \<not> isnan (Fin (85/124))
   \<and> fle (Fin 0) (Fin (85/124)) \<and> fle (Fin (85/124)) (Fin 1)"
  using confidence_is_clip[of 3 example_cfg rolling_lib
          "[Fin 0, Fin 13, Fin 59, Fin 72, Fin 61, Fin 74, Fin 120]"
          "[Fin 0, Fin 0, Fin 0, Fin 0, Fin 0, Fin 0, Fin 0]" "Fin 1" "Fin 0"]
  by (simp add: signals_eval fle_def)

section \<open>Properties of the profit and loss computation\<close>

lemma length_ffill_from: "length (ffill_from p xs) = length xs"
  by (induction xs arbitrary: p) simp_all

lemma length_filled: "length (filled fm xs) = length xs"
  by (cases fm) (simp_all add: filled_def length_ffill_from)





lemma length_shift1: "length (shift1 xs) = length xs"
  by (cases xs rule: rev_cases) (simp_all add: shift1_def)

lemma shift1_0: "xs \<noteq> [] \<Longrightarrow> shift1 xs ! 0 = NaN"
  by (simp add: shift1_def)




lemma pct_change_0: "xs \<noteq> [] \<Longrightarrow> pct_change fm xs ! 0 = NaN"
proof -
  assume ne: "xs \<noteq> []"
  then have f: "filled fm xs \<noteq> []" using length_filled[of fm xs] by auto
  then have l: "0 < length (filled fm xs)" by simp
  show ?thesis
    using l shift1_0[OF f]
    by (cases "filled fm xs ! 0")
       (simp_all add: pct_change_def Let_def length_shift1 fsub_def)
qed















section \<open>Properties of the metrics\<close>

lemma compute_metrics_nonempty:
  assumes "dropna returns \<noteq> []"
  shows "compute_metrics lib returns =
     Inr [(''total_return'', fsub (fprod (map (fadd (Fin 1)) (dropna returns))) (Fin 1)),
          (''annualized_return'',
             fsub (np_power lib
                     (fadd (Fin 1) (fsub (fprod (map (fadd (Fin 1)) (dropna returns))) (Fin 1)))
                     (Fin (252 / real (length (dropna returns))))) (Fin 1)),
          (''annualized_volatility'', annualized_volatility (dropna returns)),
          (''sharpe_ratio'',
             if truthy (annualized_volatility (dropna returns))
             then fdiv (fsub (np_power lib
                     (fadd (Fin 1) (fsub (fprod (map (fadd (Fin 1)) (dropna returns))) (Fin 1)))
                     (Fin (252 / real (length (dropna returns))))) (Fin 1))
                    (annualized_volatility (dropna returns))
             else Fin 0),
          (''max_drawdown'',
             pd_min (map2 (\<lambda>c m. fdiv (fsub c m) m)
                       (cumprod (map (fadd (Fin 1)) (dropna returns)))
                       (cummax (cumprod (map (fadd (Fin 1)) (dropna returns)))))),
          (''win_rate'',
             if length (filter (\<lambda>v. v \<noteq> Fin 0) (dropna returns)) \<noteq> 0
             then Fin (real (length (filter (\<lambda>v. fgt v (Fin 0)) (dropna returns)))
                       / real (length (filter (\<lambda>v. v \<noteq> Fin 0) (dropna returns))))
             else Fin 0),
          (''profit_factor'',
             if truthy (gross_loss (dropna returns))
             then fdiv (gross_profit (dropna returns)) (gross_loss (dropna returns))
             else PInf),
          (''num_trading_days'', Fin (real (length (dropna returns)))),
          (''avg_daily_return'', pd_mean (dropna returns)),
          (''skewness'', pd_skew lib (dropna returns)),
          (''kurtosis'', pd_kurtosis lib (dropna returns))]"
  using assms by (simp add: compute_metrics_def py_truediv_def Let_def)

lemma compute_metrics_empty:
  "dropna returns = [] \<Longrightarrow> compute_metrics lib returns = Inr []"
  by (simp add: compute_metrics_def)

lemma fsum_zeros: "\<forall>v \<in> set xs. v = Fin 0 \<Longrightarrow> foldl fadd (Fin 0) xs = Fin 0"
  by (induction xs) simp_all

lemma zeros_replicate: "\<forall>v \<in> set xs. v = c \<Longrightarrow> xs = replicate (length xs) c"
  by (induction xs) simp_all

lemma pd_std_zeros:
  assumes "\<forall>v \<in> set r. v = Fin 0" and "2 \<le> length r"
  shows "pd_std r = Fin 0"
proof -
  have s: "fsum r = Fin 0" using assms(1) by (simp add: fsum_def fsum_zeros)
  have n: "real (length r) \<noteq> 0" "real (length r) - 1 \<noteq> 0" using assms(2) by auto
  have m: "pd_mean r = Fin 0" using s n by (simp add: pd_mean_def)
  have "\<forall>v \<in> set (map (\<lambda>v. fmul (fsub v (Fin 0)) (fsub v (Fin 0))) r). v = Fin 0"
    using assms(1) by (auto simp: fsub_def)
  then have d: "fsum (map (\<lambda>v. fmul (fsub v (Fin 0)) (fsub v (Fin 0))) r) = Fin 0"
    unfolding fsum_def by (rule fsum_zeros)
  show ?thesis using n by (simp add: pd_std_def Let_def m d)
qed

lemma gross_loss_zeros:
  assumes "\<forall>v \<in> set r. v = Fin 0"
  shows "gross_loss r = Fin 0"
proof -
  have "filter (\<lambda>v. flt v (Fin 0)) r = []" using assms by (auto simp: filter_empty_conv)
  then show ?thesis by (simp add: gross_loss_def fsum_def)
qed

text \<open>
  Claim C6, as stated, gives an all-zero return series as an example of zero volatility.
  A series of a single zero is all zero, but the sample standard deviation of one value
  is NaN; NaN is true in \<open>ann/vol if vol else 0\<close>, and the Sharpe ratio is NaN, not 0.
\<close>

theorem metrics_single_zero_counterexample:
  "compute_metrics short_series_lib [Fin 0] =
     Inr [(''total_return'', Fin 0),
          (''annualized_return'', Fin 0),
          (''annualized_volatility'', NaN),
          (''sharpe_ratio'', NaN),
          (''max_drawdown'', Fin 0),
          (''win_rate'', Fin 0),
          (''profit_factor'', PInf),
          (''num_trading_days'', Fin 1),
          (''avg_daily_return'', Fin 0),
          (''skewness'', NaN),
          (''kurtosis'', NaN)]"
  by (simp add: compute_metrics_def py_truediv_def dropna_def Let_def short_series_lib_def
        fprod_def fsub_def annualized_volatility_def pd_std_def pd_mean_def fsum_def
        cumprod_def cummax_def pd_min_def gross_profit_def gross_loss_def truthy_def fgt_def)

text \<open>
  Claim C6, amended. \<open>_compute_metrics\<close> never raises. For a return series that is empty
  after dropping missing values it returns an empty mapping. Otherwise, when the
  annualized volatility is zero the Sharpe ratio is 0, and when the gross loss is zero
  the profit factor is +infinity; an all-zero series of at least two values has zero
  volatility and zero gross loss.
\<close>

theorem metrics_degeneracy:
  "(\<exists>m. compute_metrics lib returns = Inr m)
   \<and> (dropna returns = [] \<longrightarrow> compute_metrics lib returns = Inr [])
   \<and> (dropna returns \<noteq> [] \<longrightarrow>
        (\<exists>m. compute_metrics lib returns = Inr m
           \<and> map_of m ''annualized_volatility'' = Some (annualized_volatility (dropna returns))
           \<and> (annualized_volatility (dropna returns) = Fin 0
                \<longrightarrow> map_of m ''sharpe_ratio'' = Some (Fin 0))
           \<and> (gross_loss (dropna returns) = Fin 0
                \<longrightarrow> map_of m ''profit_factor'' = Some PInf)))
   \<and> (2 \<le> length (dropna returns) \<and> (\<forall>v \<in> set (dropna returns). v = Fin 0)
        \<longrightarrow> annualized_volatility (dropna returns) = Fin 0
           \<and> gross_loss (dropna returns) = Fin 0)"
proof -
  have a: "\<exists>m. compute_metrics lib returns = Inr m"
  proof (cases "dropna returns = []")
    case True
    then show ?thesis using compute_metrics_empty by blast
  next
    case False
    then show ?thesis using compute_metrics_nonempty by blast
  qed
  have b: "dropna returns = [] \<longrightarrow> compute_metrics lib returns = Inr []"
    using compute_metrics_empty by blast
  have c: "\<exists>m. compute_metrics lib returns = Inr m
           \<and> map_of m ''annualized_volatility'' = Some (annualized_volatility (dropna returns))
           \<and> (annualized_volatility (dropna returns) = Fin 0
                \<longrightarrow> map_of m ''sharpe_ratio'' = Some (Fin 0))
           \<and> (gross_loss (dropna returns) = Fin 0
                \<longrightarrow> map_of m ''profit_factor'' = Some PInf)"
    if ne: "dropna returns \<noteq> []"
    unfolding compute_metrics_nonempty[OF ne] by (simp add: truthy_def)
  have d: "annualized_volatility (dropna returns) = Fin 0 \<and> gross_loss (dropna returns) = Fin 0"
    if "2 \<le> length (dropna returns) \<and> (\<forall>v \<in> set (dropna returns). v = Fin 0)"
    using that pd_std_zeros[of "dropna returns"] gross_loss_zeros[of "dropna returns"]
    by (simp add: annualized_volatility_def)
  show ?thesis using a b c d by blast
qed

theorem metrics_degeneracy_witness:
  "dropna [Fin 0, NaN, Fin 0] = [Fin 0, Fin 0]
   \<and> annualized_volatility [Fin 0, Fin 0] = Fin 0
   \<and> gross_loss [Fin 0, Fin 0] = Fin 0
   \<and> compute_metrics short_series_lib [Fin 0, NaN, Fin 0] =
       Inr [(''total_return'', Fin 0),
            (''annualized_return'', Fin 0),
            (''annualized_volatility'', Fin 0),
            (''sharpe_ratio'', Fin 0),
            (''max_drawdown'', Fin 0),
            (''win_rate'', Fin 0),
            (''profit_factor'', PInf),
            (''num_trading_days'', Fin 2),
            (''avg_daily_return'', Fin 0),
            (''skewness'', NaN),
            (''kurtosis'', NaN)]
   \<and> compute_metrics short_series_lib [NaN, NaN] = Inr []"
  using metrics_degeneracy[of short_series_lib "[Fin 0, NaN, Fin 0]"]
  by (simp add: compute_metrics_def py_truediv_def dropna_def Let_def short_series_lib_def
        fprod_def fsub_def annualized_volatility_def pd_std_def pd_mean_def fsum_def
        cumprod_def cummax_def pd_min_def gross_profit_def gross_loss_def truthy_def fgt_def)

end
